theory Spec2Isabelle
  imports Main
begin

section \<open>Values and payloads\<close>

text \<open>
  A shallow embedding of \<^verbatim>\<open>server.js\<close>, the relay between the live-stream
  wrapper and its socket and polling clients.

  JavaScript values that the server only copies or tests for truthiness are kept as
  \<open>jsval\<close>. The identifiers a client sends (\<^verbatim>\<open>streamerId\<close>, \<^verbatim>\<open>requesterId\<close>) are
  strings.
\<close>

datatype jsval =
    JUndefined
  | JNull
  | JBool bool
  | JNum int
  | JStr string
  | JObj "(string \<times> jsval) list"

text \<open>JavaScript truthiness, as used by \<^verbatim>\<open>!x\<close> and \<^verbatim>\<open>if (x)\<close>.\<close>

fun truthy :: "jsval \<Rightarrow> bool" where
  "truthy JUndefined = False"
| "truthy JNull = False"
| "truthy (JBool b) = b"
| "truthy (JNum n) = (n \<noteq> 0)"
| "truthy (JStr s) = (s \<noteq> [])"
| "truthy (JObj fs) = True"

text \<open>A string that may be absent (\<^verbatim>\<open>undefined\<close>) is truthy when present and non-empty.\<close>

fun truthyStr :: "string option \<Rightarrow> bool" where
  "truthyStr None = False"
| "truthyStr (Some s) = (s \<noteq> [])"

subsection \<open>Numbers that enter arithmetic\<close>

text \<open>
  The gift transformer multiplies \<^verbatim>\<open>data.diamondCount\<close> by \<^verbatim>\<open>data.repeatCount\<close>.
  Both are counts: each is modelled as an integer-valued number or as absent
  (\<^verbatim>\<open>undefined\<close>). JavaScript numbers are IEEE 754 doubles, so the result of the
  multiplication is the double nearest to the exact product (ties to the even
  significand), an infinity when that is out of range, and \<^verbatim>\<open>NaN\<close> when an operand is
  absent. A field that is present holds a double, so its integer is one a double can
  hold. Positive and negative zero are not distinguished.
\<close>

datatype jsnum = Num int | NaN | PosInfinity | NegInfinity

text \<open>The number of binary digits of a natural number.\<close>

fun bitLength :: "nat \<Rightarrow> nat" where
  "bitLength n = (if n = 0 then 0 else Suc (bitLength (n div 2)))"

declare bitLength.simps [simp del]

text \<open>
  Rounding an integer to a double: the 53 leading binary digits are kept, the rest is
  rounded to nearest, ties to even; a magnitude of \<open>2 ^ 1024\<close> or more is infinite.
\<close>

definition roundToDouble :: "int \<Rightarrow> jsnum" where
  "roundToDouble n =
     (let m = nat \<bar>n\<bar>;
          e = bitLength m - 53;
          q = m div 2 ^ e;
          r = m mod 2 ^ e;
          q' = (if 2 ^ e < 2 * r \<or> (2 ^ e = 2 * r \<and> odd q) then Suc q else q);
          v = q' * 2 ^ e
      in if 2 ^ 1024 \<le> v then (if n < 0 then NegInfinity else PosInfinity)
         else Num (if n < 0 then - int v else int v))"

text \<open>\<^verbatim>\<open>a * b\<close> and \<^verbatim>\<open>a > 0\<close> on numbers that may be absent.\<close>

fun jsTimes :: "int option \<Rightarrow> int option \<Rightarrow> jsnum" where
  "jsTimes (Some a) (Some b) = roundToDouble (a * b)"
| "jsTimes None b = NaN"
| "jsTimes (Some a) None = NaN"

fun jsGreaterZero :: "int option \<Rightarrow> bool" where
  "jsGreaterZero (Some a) = (a > 0)"
| "jsGreaterZero None = False"

subsection \<open>Payloads and stored events\<close>

text \<open>
  The raw payload \<^verbatim>\<open>data\<close> of an upstream event: the fields the transformers read,
  and the remaining fields as an association list.
\<close>

record raw_data =
  userId :: jsval
  uniqueId :: jsval
  nickname :: jsval
  profilePictureUrl :: jsval
  viewerCount :: jsval
  likeCount :: jsval
  totalLikeCount :: jsval
  comment :: jsval
  contentLanguage :: jsval
  giftId :: jsval
  giftName :: jsval
  giftType :: jsval
  giftPictureUrl :: jsval
  diamondCount :: "int option"
  repeatCount :: "int option"
  repeatEnd :: jsval
  memberCount :: jsval
  shareCount :: jsval
  otherFields :: "(string \<times> jsval) list"

text \<open>The object built by \<^verbatim>\<open>userBaseData\<close>: userId, uniqueId, nickname, profilePictureUrl.\<close>

datatype user_base = UserBase jsval jsval jsval jsval

text \<open>
  The \<^verbatim>\<open>data\<close> member of a stored event, one constructor per shape the transformers
  build; \<open>RawData\<close> is the raw payload passed through unchanged.
\<close>

datatype event_data =
    RoomUserData (rd_viewerCount: jsval)
  | LikeData (ld_likeCount: jsval) (ld_totalLikeCount: jsval) (ld_user: user_base)
  | ChatData (cd_comment: jsval) (cd_contentLanguage: jsval) (cd_user: user_base)
  | GiftData (gd_giftId: jsval) (gd_giftName: jsval) (gd_giftType: jsval)
      (gd_giftPictureUrl: jsval) (gd_diamondCount: jsnum) (gd_user: user_base)
  | MemberData (md_memberCount: jsval) (md_user: user_base)
  | ShareData (sd_shareCount: jsval) (sd_user: user_base)
  | UserData (ud_user: user_base)
  | RawData (raw_of: raw_data)

record event =
  ev_type :: string
  ev_timestamp :: int
  ev_data :: event_data

section \<open>Event transformers\<close>

definition DELETE_EVENTS_AGE :: int where
  "DELETE_EVENTS_AGE = 30 * 60 * 1000"

definition eventTypesToStore :: "string list" where
  "eventTypesToStore =
     [''liveIntro'', ''member'', ''roomUser'', ''chat'', ''gift'', ''like'', ''follow'',
      ''share'', ''emote'', ''envelope'', ''subscribe'', ''superFan'', ''streamEnd'']"

definition userBaseData :: "raw_data \<Rightarrow> user_base" where
  "userBaseData d = UserBase (userId d) (uniqueId d) (nickname d) (profilePictureUrl d)"

definition isPendingStreak :: "raw_data \<Rightarrow> bool" where
  "isPendingStreak d = (giftType d = JNum 1 \<and> \<not> truthy (repeatEnd d))"

text \<open>
  The table \<^verbatim>\<open>eventTypeToTransformer\<close>, in the key order \<^verbatim>\<open>Object.assign\<close> gives it.
  Each transformer takes the reading of \<^verbatim>\<open>Date.now()\<close> and the raw payload.
\<close>

definition eventTypeToTransformer :: "(string \<times> (int \<Rightarrow> raw_data \<Rightarrow> event)) list" where
  "eventTypeToTransformer =
     [(''roomUser'', \<lambda>now d. \<lparr>ev_type = ''roomUser'', ev_timestamp = now,
         ev_data = RoomUserData (viewerCount d)\<rparr>),
      (''like'', \<lambda>now d. \<lparr>ev_type = ''like'', ev_timestamp = now,
         ev_data = LikeData (likeCount d) (totalLikeCount d) (userBaseData d)\<rparr>),
      (''chat'', \<lambda>now d. \<lparr>ev_type = ''chat'', ev_timestamp = now,
         ev_data = ChatData (comment d) (contentLanguage d) (userBaseData d)\<rparr>),
      (''gift'', \<lambda>now d. \<lparr>ev_type = ''gift'', ev_timestamp = now,
         ev_data = GiftData (giftId d) (giftName d) (giftType d) (giftPictureUrl d)
           (if \<not> isPendingStreak d \<and> jsGreaterZero (diamondCount d)
            then jsTimes (diamondCount d) (repeatCount d) else Num 0)
           (userBaseData d)\<rparr>),
      (''member'', \<lambda>now d. \<lparr>ev_type = ''member'', ev_timestamp = now,
         ev_data = MemberData (memberCount d) (userBaseData d)\<rparr>),
      (''share'', \<lambda>now d. \<lparr>ev_type = ''share'', ev_timestamp = now,
         ev_data = ShareData (shareCount d) (userBaseData d)\<rparr>),
      (''streamEnd'', \<lambda>now d. \<lparr>ev_type = ''streamEnd'', ev_timestamp = now,
         ev_data = RawData d\<rparr>)]
     @ map (\<lambda>type. (type, \<lambda>now d. \<lparr>ev_type = type, ev_timestamp = now,
         ev_data = UserData (userBaseData d)\<rparr>))
       [''follow'', ''subscribe'', ''superFan'']"

text \<open>
  What the upstream listener stores for one firing: the transformer's result when the
  table has one for the kind, the raw payload tagged with kind and time otherwise.
\<close>

definition transformEvent :: "string \<Rightarrow> int \<Rightarrow> raw_data \<Rightarrow> event" where
  "transformEvent eventType now d =
     (case map_of eventTypeToTransformer eventType of
        Some dataTransformer \<Rightarrow> dataTransformer now d
      | None \<Rightarrow> \<lparr>ev_type = eventType, ev_timestamp = now, ev_data = RawData d\<rparr>)"

section \<open>Server state\<close>

text \<open>
  The \<^verbatim>\<open>options\<close> object handed to the wrapper's constructor. \<open>None\<close> is an absent
  property; \<^verbatim>\<open>delete options.f\<close> makes \<open>f\<close> absent.
\<close>

record options =
  requestOptions :: "jsval option"
  websocketOptions :: "jsval option"
  sessionId :: "jsval option"
  enableExtendedGiftInfo :: "jsval option"
  otherOptions :: "(string \<times> jsval) list"

definition emptyOptions :: options where
  "emptyOptions = \<lparr>requestOptions = None, websocketOptions = None, sessionId = None,
     enableExtendedGiftInfo = None, otherOptions = []\<rparr>"

text \<open>
  The wrapper class lives outside \<^verbatim>\<open>server.js\<close>; a wrapper object is represented by
  the arguments \<^verbatim>\<open>new TikTokConnectionWrapper(streamerId, options, true)\<close> received.
\<close>

record wrapper =
  w_streamerId :: string
  w_options :: options

text \<open>
  A socket is an object with an identity; membership of a list (\<^verbatim>\<open>indexOf\<close>) goes by
  identity. Property keys of a JavaScript object are strings, so
  \<^verbatim>\<open>socketTostreamerIdMap[socket]\<close> is keyed by the string the socket converts to. A
  socket inherits \<^verbatim>\<open>Object.prototype.toString\<close>, so that string is the same for every
  socket.
\<close>

record socket =
  sock_id :: nat

definition socketKey :: "socket \<Rightarrow> string" where
  "socketKey sock = ''[object Object]''"

datatype emit_arg = ArgData event_data | ArgVal jsval

type_synonym emission = "socket \<times> string \<times> emit_arg"

text \<open>The two environment variables the server reads.\<close>

record env =
  SESSIONID :: "string option"
  ENABLE_RATE_LIMIT :: "string option"

subsection \<open>Plain objects used as maps\<close>

text \<open>
  The module-level maps are object literals \<^verbatim>\<open>{}\<close>, whose prototype is
  \<^verbatim>\<open>Object.prototype\<close>: reading \<^verbatim>\<open>map[key]\<close> for a key that was never stored yields
  \<^verbatim>\<open>undefined\<close>, except when the key names a member of \<^verbatim>\<open>Object.prototype\<close>; it
  then yields that member, a function or an object, which is truthy.
\<close>

definition objectPrototypeMembers :: "string list" where
  "objectPrototypeMembers =
     [''constructor'', ''__defineGetter__'', ''__defineSetter__'', ''hasOwnProperty'',
      ''__lookupGetter__'', ''__lookupSetter__'', ''isPrototypeOf'', ''propertyIsEnumerable'',
      ''toString'', ''valueOf'', ''__proto__'', ''toLocaleString'']"

text \<open>
  What a lookup \<^verbatim>\<open>map[key]\<close> finds: \<open>None\<close> is \<^verbatim>\<open>undefined\<close>, \<open>Some (Stored v)\<close> a value the
  server stored under the key, \<open>Some Inherited\<close> the member of \<^verbatim>\<open>Object.prototype\<close> of
  that name.
\<close>

datatype 'a slot = Stored 'a | Inherited

definition emptyObject :: "string \<rightharpoonup> 'a slot" where
  "emptyObject key = (if key \<in> set objectPrototypeMembers then Some Inherited else None)"

text \<open>
  The assignment \<^verbatim>\<open>map[key] = n\<close> of a number: it creates or overwrites the property,
  except under the key \<^verbatim>\<open>__proto__\<close>, whose setter ignores a value that is neither an
  object nor \<^verbatim>\<open>null\<close>. Every other assignment to one of the maps follows a lookup
  under the same key that found nothing, which no member's name gives.
\<close>

definition assignNumber :: "(string \<rightharpoonup> int slot) \<Rightarrow> string \<Rightarrow> int \<Rightarrow> (string \<rightharpoonup> int slot)" where
  "assignNumber m key n = (if key = ''__proto__'' then m else m(key \<mapsto> Stored n))"

text \<open>The lookup finds a value the server stored.\<close>

fun isStored :: "'a slot option \<Rightarrow> bool" where
  "isStored (Some (Stored v)) = True"
| "isStored (Some Inherited) = False"
| "isStored None = False"

text \<open>Truthiness of what the cursor lookup finds: a number other than 0, or an inherited member.\<close>

fun truthyCursor :: "int slot option \<Rightarrow> bool" where
  "truthyCursor None = False"
| "truthyCursor (Some (Stored n)) = (n \<noteq> 0)"
| "truthyCursor (Some Inherited) = True"

text \<open>
  The five module-level maps. An event container \<^verbatim>\<open>{ events: [...] }\<close> is its list. The
  only key \<^verbatim>\<open>socketTostreamerIdMap\<close> is ever read or written under is \<open>socketKey\<close>, which
  names no member of \<^verbatim>\<open>Object.prototype\<close>; its \<open>None\<close> is \<^verbatim>\<open>undefined\<close>, stored or not.

  Four further components record effects on the outside: which one-shot lifecycle
  listeners are still registered, every wrapper whose construction and
  \<^verbatim>\<open>connect()\<close> call returned, every \<^verbatim>\<open>socket.emit\<close> in order, and whether a
  handler died of an uncaught \<^verbatim>\<open>TypeError\<close>. The periodic \<^verbatim>\<open>statistic\<close> broadcast
  (\<^verbatim>\<open>io.emit\<close>) reads and writes none of the maps and is left out.
\<close>

record state =
  streamEvents :: "string \<rightharpoonup> event list slot"
  requesterIdToLastRequestTimestamp :: "string \<rightharpoonup> int slot"
  streamerIdToSocketsMap :: "string \<rightharpoonup> socket list slot"
  socketTostreamerIdMap :: "string \<rightharpoonup> string"
  streamerIdToTikTokConnectionWrapperMap :: "string \<rightharpoonup> wrapper slot"
  connectedListener :: "string \<Rightarrow> bool"
  disconnectedListener :: "string \<Rightarrow> bool"
  constructed :: "wrapper list"
  emitted :: "emission list"
  crashed :: bool

definition initial_state :: state where
  "initial_state = \<lparr>streamEvents = emptyObject,
     requesterIdToLastRequestTimestamp = emptyObject,
     streamerIdToSocketsMap = emptyObject,
     socketTostreamerIdMap = Map.empty,
     streamerIdToTikTokConnectionWrapperMap = emptyObject,
     connectedListener = (\<lambda>_. False),
     disconnectedListener = (\<lambda>_. False),
     constructed = [],
     emitted = [],
     crashed = False\<rparr>"

definition createInitialEventContainer :: "event list" where
  "createInitialEventContainer = []"

text \<open>The events and the sockets stored for a streamer; none when nothing was stored.\<close>

definition eventsOf :: "state \<Rightarrow> string \<Rightarrow> event list" where
  "eventsOf s streamerId =
     (case streamEvents s streamerId of Some (Stored events) \<Rightarrow> events | _ \<Rightarrow> [])"

definition socketsOf :: "state \<Rightarrow> string \<Rightarrow> socket list" where
  "socketsOf s streamerId =
     (case streamerIdToSocketsMap s streamerId of Some (Stored socketList) \<Rightarrow> socketList | _ \<Rightarrow> [])"

definition emitTo :: "socket list \<Rightarrow> string \<Rightarrow> emit_arg \<Rightarrow> state \<Rightarrow> state" where
  "emitTo sockets name arg s =
     s\<lparr>emitted := emitted s @ map (\<lambda>sock. (sock, name, arg)) sockets\<rparr>"

text \<open>
  \<^verbatim>\<open>streamerIdToSocketsMap[streamerId]?.forEach(socket => socket.emit(name, arg))\<close>:
  nothing when the lookup is \<^verbatim>\<open>undefined\<close>, an emit to each entry of a stored list, and a
  \<^verbatim>\<open>TypeError\<close> when the lookup finds an inherited member, which has no \<^verbatim>\<open>forEach\<close>.
\<close>

definition forEachSocket :: "string \<Rightarrow> string \<Rightarrow> emit_arg \<Rightarrow> state \<Rightarrow> state" where
  "forEachSocket streamerId name arg s =
     (case streamerIdToSocketsMap s streamerId of
        None \<Rightarrow> s
      | Some (Stored socketList) \<Rightarrow> emitTo socketList name arg s
      | Some Inherited \<Rightarrow> s\<lparr>crashed := True\<rparr>)"

section \<open>Acquiring the wrapper\<close>

text \<open>
  \<^verbatim>\<open>getOrCreateTiktokConnectionWrapper\<close>. The argument \<open>outcome\<close> is what the
  \<^verbatim>\<open>try\<close> block does when it is entered: \<open>Some errStr\<close> when the constructor or
  \<^verbatim>\<open>connect()\<close> throws an error whose \<^verbatim>\<open>toString()\<close> is \<open>errStr\<close>, \<open>None\<close>
  when both return. The result is the pair \<^verbatim>\<open>[tiktokConnectionWrapper, errStr]\<close>; its
  first component is whatever the lookup found when that is truthy, which every stored
  wrapper and every inherited member is.
\<close>

definition getOrCreateTiktokConnectionWrapper ::
  "string \<Rightarrow> options \<Rightarrow> string option \<Rightarrow> state \<Rightarrow> (wrapper slot option \<times> string option) \<times> state" where
  "getOrCreateTiktokConnectionWrapper streamerId opts outcome s =
     (case streamerIdToTikTokConnectionWrapperMap s streamerId of
        Some found \<Rightarrow> ((Some found, None), s)
      | None \<Rightarrow>
          (case outcome of
             Some errStr \<Rightarrow> ((None, Some errStr), s)
           | None \<Rightarrow>
               (let tiktokConnectionWrapper = \<lparr>w_streamerId = streamerId, w_options = opts\<rparr>
                in ((Some (Stored tiktokConnectionWrapper), None),
                    s\<lparr>streamerIdToTikTokConnectionWrapperMap :=
                        (streamerIdToTikTokConnectionWrapperMap s)
                          (streamerId \<mapsto> Stored tiktokConnectionWrapper),
                      connectedListener := (connectedListener s)(streamerId := True),
                      disconnectedListener := (disconnectedListener s)(streamerId := True),
                      constructed := constructed s @ [tiktokConnectionWrapper]\<rparr>))))"

text \<open>The acquisition returns a truthy \<^verbatim>\<open>errStr\<close>: a miss whose creation throws a non-empty text.\<close>

definition acquireFails :: "string \<Rightarrow> string option \<Rightarrow> state \<Rightarrow> bool" where
  "acquireFails streamerId outcome s =
     (case streamerIdToTikTokConnectionWrapperMap s streamerId of
        Some found \<Rightarrow> False
      | None \<Rightarrow> truthyStr outcome)"

section \<open>Upstream listeners\<close>

text \<open>
  The listener registered for each kind of \<^verbatim>\<open>eventTypesToStore\<close> (source lines 127 to
  139); none of these kinds names a member of \<^verbatim>\<open>Object.prototype\<close>, so the lookup in the
  transformer table is as \<open>transformEvent\<close> has it. An inherited member found where the
  container should be has no \<^verbatim>\<open>events\<close>, and the \<^verbatim>\<open>push\<close> is a \<^verbatim>\<open>TypeError\<close>.
\<close>

definition onUpstreamEvent :: "string \<Rightarrow> string \<Rightarrow> raw_data \<Rightarrow> int \<Rightarrow> state \<Rightarrow> state" where
  "onUpstreamEvent streamerId eventType d now s =
     (let s1 = (if streamEvents s streamerId = None
                then s\<lparr>streamEvents := (streamEvents s)(streamerId \<mapsto> Stored createInitialEventContainer)\<rparr>
                else s)
      in case streamEvents s1 streamerId of
           Some (Stored events) \<Rightarrow>
             forEachSocket streamerId eventType (ArgData (RawData d))
               (s1\<lparr>streamEvents := (streamEvents s1)
                     (streamerId \<mapsto> Stored (events @ [transformEvent eventType now d]))\<rparr>)
         | _ \<Rightarrow> s1\<lparr>crashed := True\<rparr>)"

text \<open>The one-shot listeners for the wrapper's \<^verbatim>\<open>connected\<close> and \<^verbatim>\<open>disconnected\<close> signals.\<close>

definition onConnected :: "string \<Rightarrow> jsval \<Rightarrow> state \<Rightarrow> state" where
  "onConnected streamerId st s =
     (if connectedListener s streamerId
      then forEachSocket streamerId ''tiktokConnected'' (ArgVal st)
             (s\<lparr>connectedListener := (connectedListener s)(streamerId := False)\<rparr>)
      else s)"

definition onDisconnected :: "string \<Rightarrow> jsval \<Rightarrow> state \<Rightarrow> state" where
  "onDisconnected streamerId reason s =
     (if disconnectedListener s streamerId
      then forEachSocket streamerId ''tiktokDisconnected'' (ArgVal reason)
             (s\<lparr>disconnectedListener := (disconnectedListener s)(streamerId := False)\<rparr>)
      else s)"

section \<open>Socket handlers\<close>

definition rateLimitMessage :: string where
  "rateLimitMessage = ''You have opened too many connections or made too many connection requests. Please reduce the number of connections/requests or host your own server instance. The connections are limited to avoid that the server IP gets blocked by TokTok.''"

text \<open>
  Source lines 153 to 164: a non-object or \<^verbatim>\<open>null\<close> argument (\<open>None\<close>) becomes
  \<^verbatim>\<open>{}\<close>, the two transport overrides are deleted, and a truthy \<^verbatim>\<open>SESSIONID\<close>
  replaces \<^verbatim>\<open>sessionId\<close>.
\<close>

definition sanitizeOptions :: "env \<Rightarrow> options option \<Rightarrow> options" where
  "sanitizeOptions e optionsArg =
     (let opts = (case optionsArg of
                    Some given \<Rightarrow> given\<lparr>requestOptions := None, websocketOptions := None\<rparr>
                  | None \<Rightarrow> emptyOptions)
      in case SESSIONID e of
           None \<Rightarrow> opts
         | Some sid \<Rightarrow> if sid \<noteq> [] then opts\<lparr>sessionId := Some (JStr sid)\<rparr> else opts)"

text \<open>
  \<^verbatim>\<open>setStreamerId\<close>. \<open>blocked\<close> is the result of \<^verbatim>\<open>clientBlocked(io, socket)\<close>,
  \<open>outcome\<close> the behaviour of the \<^verbatim>\<open>try\<close> block if the acquisition enters it. The
  variable \<^verbatim>\<open>socketList\<close> holds what the lookup of line 173 found when that is truthy;
  an inherited member has no \<^verbatim>\<open>push\<close>, so line 184 is then a \<^verbatim>\<open>TypeError\<close>, which
  nothing catches.
\<close>

definition setStreamerId ::
  "env \<Rightarrow> socket \<Rightarrow> string \<Rightarrow> options option \<Rightarrow> bool \<Rightarrow> string option \<Rightarrow> state \<Rightarrow> state" where
  "setStreamerId e sock streamerId optionsArg blocked outcome s =
     (let opts = sanitizeOptions e optionsArg
      in if truthyStr (ENABLE_RATE_LIMIT e) \<and> blocked
         then emitTo [sock] ''tiktokDisconnected'' (ArgVal (JStr rateLimitMessage)) s
         else
           (let s1 = (if streamerIdToSocketsMap s streamerId = None
                      then s\<lparr>streamerIdToSocketsMap := (streamerIdToSocketsMap s)(streamerId \<mapsto> Stored [])\<rparr>
                      else s);
                r = getOrCreateTiktokConnectionWrapper streamerId opts outcome s1;
                s2 = snd r
            in case fst (fst r) of
                 Some tiktokConnectionWrapper \<Rightarrow>
                   (case streamerIdToSocketsMap s1 streamerId of
                      Some (Stored socketList) \<Rightarrow>
                        s2\<lparr>streamerIdToSocketsMap := (streamerIdToSocketsMap s2)
                              (streamerId \<mapsto> Stored (socketList @ [sock])),
                           socketTostreamerIdMap := (socketTostreamerIdMap s2)
                              (socketKey sock \<mapsto> streamerId)\<rparr>
                    | _ \<Rightarrow> s2\<lparr>crashed := True\<rparr>)
               | None \<Rightarrow>
                   emitTo [sock] ''tiktokDisconnected''
                     (ArgVal (case snd (fst r) of Some errStr \<Rightarrow> JStr errStr | None \<Rightarrow> JUndefined)) s2))"

text \<open>
  The \<^verbatim>\<open>disconnect\<close> handler. \<^verbatim>\<open>indexOf\<close> with \<^verbatim>\<open>splice(socketIndex, 1)\<close> removes
  the first occurrence; calling \<^verbatim>\<open>indexOf\<close> on anything but a stored list is a
  \<^verbatim>\<open>TypeError\<close>.
\<close>

definition onDisconnect :: "socket \<Rightarrow> state \<Rightarrow> state" where
  "onDisconnect sock s =
     (case socketTostreamerIdMap s (socketKey sock) of
        None \<Rightarrow> s
      | Some streamerId \<Rightarrow>
          if streamerId = [] then s
          else (case streamerIdToSocketsMap s streamerId of
                  Some (Stored socketList) \<Rightarrow>
                    s\<lparr>streamerIdToSocketsMap := (streamerIdToSocketsMap s)
                          (streamerId \<mapsto> Stored (remove1 sock socketList)),
                      socketTostreamerIdMap := (socketTostreamerIdMap s)(socketKey sock := None)\<rparr>
                | _ \<Rightarrow> s\<lparr>crashed := True\<rparr>))"

section \<open>The polling endpoint\<close>

record query =
  q_streamerId :: "string option"
  q_requesterId :: "string option"

text \<open>
  What the client is sent: status 400 with a text, the JSON object with \<^verbatim>\<open>events\<close> and
  an optional \<^verbatim>\<open>message\<close>, or status 500 from the framework's error handler when the
  handler throws.
\<close>

datatype response =
    Status400 string
  | Json "(string \<times> event_data) list" "string option"
  | Status500

text \<open>The events a response carries.\<close>

fun sentEvents :: "response \<Rightarrow> (string \<times> event_data) list" where
  "sentEvents (Json events message) = events"
| "sentEvents (Status400 text) = []"
| "sentEvents Status500 = []"

definition newEventsSince :: "int \<Rightarrow> event list \<Rightarrow> event list" where
  "newEventsSince lastRequest events = filter (\<lambda>event. ev_timestamp event > lastRequest) events"

definition deleteOldEvents :: "int \<Rightarrow> event list \<Rightarrow> event list" where
  "deleteOldEvents now events =
     filter (\<lambda>event. ev_timestamp event > now - DELETE_EVENTS_AGE) events"

definition typeAndData :: "event \<Rightarrow> string \<times> event_data" where
  "typeAndData event = (ev_type event, ev_data event)"

text \<open>
  Source lines 231 to 249: the answer once the acquisition returned no error. The
  handler runs to its end without interruption; it reads \<^verbatim>\<open>Date.now()\<close> for the
  cursor and again for each event it tests in the sweep, and \<open>now\<close> stands for all these
  readings, taken within the same millisecond.

  Line 240 reads \<^verbatim>\<open>events\<close> from what the lookup of the container finds; an inherited
  member has none, so \<^verbatim>\<open>events.filter\<close> on line 241 is a \<^verbatim>\<open>TypeError\<close>: the client
  is sent status 500, and neither the cursor assignment of line 243 nor the sweep of line
  245 is reached. The comparison of a timestamp with an inherited member found as cursor
  is false for every event.
\<close>

definition answerPoll :: "string \<Rightarrow> string \<Rightarrow> int \<Rightarrow> state \<Rightarrow> response \<times> state" where
  "answerPoll streamerId requesterId now s1 =
     (let s2 = (if streamEvents s1 streamerId = None
                then s1\<lparr>streamEvents := (streamEvents s1)(streamerId \<mapsto> Stored createInitialEventContainer)\<rparr>
                else s1)
      in if \<not> truthyCursor (requesterIdToLastRequestTimestamp s2 requesterId)
         then (Json [] (Some ''New ID registered. No events yet.''),
               s2\<lparr>requesterIdToLastRequestTimestamp :=
                    assignNumber (requesterIdToLastRequestTimestamp s2) requesterId now\<rparr>)
         else
           (case streamEvents s2 streamerId of
              Some (Stored events) \<Rightarrow>
                (let newEvents = (case requesterIdToLastRequestTimestamp s2 requesterId of
                                    Some (Stored lastRequest) \<Rightarrow> newEventsSince lastRequest events
                                  | _ \<Rightarrow> [])
                 in (Json (map typeAndData newEvents) None,
                     s2\<lparr>requesterIdToLastRequestTimestamp :=
                          assignNumber (requesterIdToLastRequestTimestamp s2) requesterId now,
                        streamEvents := (streamEvents s2)
                          (streamerId \<mapsto> Stored (deleteOldEvents now events))\<rparr>))
            | _ \<Rightarrow> (Status500, s2)))"

text \<open>
  Source lines 222 to 229, after both parameters were found present: the acquisition
  with the options the server writes itself, and the early answer when it returns a
  truthy \<^verbatim>\<open>errStr\<close>.
\<close>

definition pollEvents :: "string \<Rightarrow> string \<Rightarrow> int \<Rightarrow> string option \<Rightarrow> state \<Rightarrow> response \<times> state" where
  "pollEvents streamerId requesterId now outcome s =
     (let opts = emptyOptions\<lparr>enableExtendedGiftInfo := Some (JBool True)\<rparr>;
          r = getOrCreateTiktokConnectionWrapper streamerId opts outcome s;
          errStr = snd (fst r)
      in if truthyStr errStr then (Json [] errStr, snd r)
         else answerPoll streamerId requesterId now (snd r))"

text \<open>The handler of \<^verbatim>\<open>GET /events\<close>: an absent or empty parameter is answered with status 400.\<close>

definition getEvents :: "query \<Rightarrow> int \<Rightarrow> string option \<Rightarrow> state \<Rightarrow> response \<times> state" where
  "getEvents q now outcome s =
     (case q_streamerId q of
        None \<Rightarrow> (Status400 ''Missing streamerId parameter.'', s)
      | Some streamerId \<Rightarrow>
          if streamerId = [] then (Status400 ''Missing streamerId parameter.'', s)
          else (case q_requesterId q of
                  None \<Rightarrow> (Status400 ''Missing requesterId parameter.'', s)
                | Some requesterId \<Rightarrow>
                    if requesterId = [] then (Status400 ''Missing requesterId parameter.'', s)
                    else pollEvents streamerId requesterId now outcome s))"

section \<open>The dispatch loop\<close>

text \<open>
  One callback run by the event loop, with what the outside supplies to it. A content
  event of a streamer reaches a listener only when a wrapper was constructed and cached
  for it, since the listeners are registered on that wrapper.
\<close>

datatype action =
    SetStreamerId socket string "options option" bool "string option"
  | SocketDisconnect socket
  | GetEvents query int "string option"
  | UpstreamEvent string string raw_data int
  | UpstreamConnected string jsval
  | UpstreamDisconnected string jsval

fun handle :: "env \<Rightarrow> action \<Rightarrow> state \<Rightarrow> state" where
  "handle e (SetStreamerId sock streamerId optionsArg blocked outcome) s =
     setStreamerId e sock streamerId optionsArg blocked outcome s"
| "handle e (SocketDisconnect sock) s = onDisconnect sock s"
| "handle e (GetEvents q now outcome) s = snd (getEvents q now outcome s)"
| "handle e (UpstreamEvent streamerId eventType d now) s =
     (case streamerIdToTikTokConnectionWrapperMap s streamerId of
        Some (Stored tiktokConnectionWrapper) \<Rightarrow>
          if eventType \<in> set eventTypesToStore
          then onUpstreamEvent streamerId eventType d now s else s
      | _ \<Rightarrow> s)"
| "handle e (UpstreamConnected streamerId st) s = onConnected streamerId st s"
| "handle e (UpstreamDisconnected streamerId reason) s = onDisconnected streamerId reason s"

text \<open>After an uncaught error the process is gone and nothing runs any more.\<close>

definition step :: "env \<Rightarrow> action \<Rightarrow> state \<Rightarrow> state" where
  "step e a s = (if crashed s then s else handle e a s)"

fun run :: "env \<Rightarrow> action list \<Rightarrow> state \<Rightarrow> state" where
  "run e [] s = s"
| "run e (a # as) s = run e as (step e a s)"

fun isPollBy :: "string \<Rightarrow> action \<Rightarrow> bool" where
  "isPollBy requesterId (GetEvents q now outcome) = (q_requesterId q = Some requesterId)"
| "isPollBy requesterId a = False"

text \<open>A callback is not a poll of the requester at a time before \<open>t\<close>.\<close>

fun pollsNotBefore :: "string \<Rightarrow> int \<Rightarrow> action \<Rightarrow> bool" where
  "pollsNotBefore requesterId t (GetEvents q now outcome) =
     (q_requesterId q \<noteq> Some requesterId \<or> t \<le> now)"
| "pollsNotBefore requesterId t a = True"

text \<open>
  No lookup under the key finds an inherited member: the case for every key that names
  no member of \<^verbatim>\<open>Object.prototype\<close>, in every state the server reaches.
\<close>

definition noInherited :: "state \<Rightarrow> string \<Rightarrow> bool" where
  "noInherited s key =
     (streamEvents s key \<noteq> Some Inherited
      \<and> requesterIdToLastRequestTimestamp s key \<noteq> Some Inherited
      \<and> streamerIdToSocketsMap s key \<noteq> Some Inherited
      \<and> streamerIdToTikTokConnectionWrapperMap s key \<noteq> Some Inherited)"

section \<open>Concrete inputs\<close>

text \<open>Values used where a statement below is evaluated on a concrete run.\<close>

definition noEnv :: env where
  "noEnv = \<lparr>SESSIONID = None, ENABLE_RATE_LIMIT = None\<rparr>"

definition blankData :: raw_data where
  "blankData = \<lparr>userId = JUndefined, uniqueId = JUndefined, nickname = JUndefined,
     profilePictureUrl = JUndefined, viewerCount = JUndefined, likeCount = JUndefined,
     totalLikeCount = JUndefined, comment = JUndefined, contentLanguage = JUndefined,
     giftId = JUndefined, giftName = JUndefined, giftType = JUndefined,
     giftPictureUrl = JUndefined, diamondCount = None, repeatCount = None, repeatEnd = JUndefined,
     memberCount = JUndefined, shareCount = JUndefined, otherFields = []\<rparr>"

definition pollOptions :: options where
  "pollOptions = emptyOptions\<lparr>enableExtendedGiftInfo := Some (JBool True)\<rparr>"

definition queryAR :: query where
  "queryAR = \<lparr>q_streamerId = Some ''a'', q_requesterId = Some ''r''\<rparr>"

definition queryBR :: query where
  "queryBR = \<lparr>q_streamerId = Some ''b'', q_requesterId = Some ''r''\<rparr>"

definition viewers :: "int \<Rightarrow> raw_data" where
  "viewers n = blankData\<lparr>viewerCount := JNum n\<rparr>"

definition queryBQ :: query where
  "queryBQ = \<lparr>q_streamerId = Some ''b'', q_requesterId = Some ''q''\<rparr>"

text \<open>
  Requester r registers with a poll of streamer a at 1000, requester q with a poll of
  b at 1100, and b receives a viewer count at 1500.
\<close>

definition beforeA :: state where
  "beforeA = run noEnv [GetEvents queryAR 1000 None, GetEvents queryBQ 1100 None,
      UpstreamEvent ''b'' ''roomUser'' (viewers 7) 1500] initial_state"

definition secretEnv :: env where
  "secretEnv = \<lparr>SESSIONID = Some ''secret'', ENABLE_RATE_LIMIT = None\<rparr>"

definition socket0 :: socket where
  "socket0 = \<lparr>sock_id = 0\<rparr>"

definition callerOptions :: options where
  "callerOptions = \<lparr>requestOptions = Some (JObj [(''timeout'', JNum 1)]),
     websocketOptions = Some (JObj [(''host'', JStr ''example.org'')]),
     sessionId = Some (JStr ''mine''),
     enableExtendedGiftInfo = Some (JBool False),
     otherOptions = [(''processInitialData'', JBool False)]\<rparr>"

text \<open>
  What the sanitising is to achieve, as a predicate on the options a constructor receives:
  no transport override, and no credential other than the server's when one is configured.
\<close>

definition cleanOptions :: "env \<Rightarrow> options \<Rightarrow> bool" where
  "cleanOptions e opts =
     (requestOptions opts = None \<and> websocketOptions opts = None
      \<and> (if truthyStr (SESSIONID e)
          then sessionId opts = None \<or> sessionId opts = map_option JStr (SESSIONID e)
          else True))"

text \<open>Requester r registers with a poll of a at 1000; a receives a viewer count at 2000.\<close>

definition registeredA :: state where
  "registeredA = run noEnv [GetEvents queryAR 1000 None,
      UpstreamEvent ''a'' ''roomUser'' (viewers 7) 2000] initial_state"

text \<open>Requester r registers with a poll of a at 1000.\<close>

definition registeredOnly :: state where
  "registeredOnly = run noEnv [GetEvents queryAR 1000 None] initial_state"

text \<open>
  Requester q polls b at 500 and a at 600, and a receives a viewer count at 700; requester
  r has not polled yet.
\<close>

definition bufferedA :: state where
  "bufferedA = run noEnv [GetEvents queryBQ 500 None,
      GetEvents \<lparr>q_streamerId = Some ''a'', q_requesterId = Some ''q''\<rparr> 600 None,
      UpstreamEvent ''a'' ''roomUser'' (viewers 7) 700] initial_state"

text \<open>Registered requester r polls a at 2000 and a receives a viewer count at 2000.\<close>

definition sameMillisecond :: state where
  "sameMillisecond = run noEnv [GetEvents queryAR 2000 None,
      UpstreamEvent ''a'' ''roomUser'' (viewers 7) 2000] registeredOnly"

definition chatData :: raw_data where
  "chatData = blankData\<lparr>comment := JStr ''hi'', userId := JStr ''u1'',
     uniqueId := JStr ''alice'', nickname := JStr ''Alice''\<rparr>"

text \<open>A socket subscribes to a, and a receives a chat message at 5000.\<close>

definition chatFired :: state where
  "chatFired = run noEnv [SetStreamerId socket0 ''a'' None False None,
      UpstreamEvent ''a'' ''chat'' chatData 5000] initial_state"

text \<open>
  The kinds of the catalogue whose stored data is the raw payload: \<^verbatim>\<open>streamEnd\<close> by
  its transformer, the three kinds without a transformer by the fallback.
\<close>

definition passThroughTypes :: "string list" where
  "passThroughTypes = [''liveIntro'', ''emote'', ''envelope'', ''streamEnd'']"



text \<open>
  A poll creates the wrapper of a; the wrapper then signals \<^verbatim>\<open>disconnected\<close>, as it does
  when its connect fails after the call has returned.
\<close>

definition asyncFailed :: state where
  "asyncFailed = run noEnv [GetEvents queryAR 1000 None,
      UpstreamDisconnected ''a'' (JStr ''Error: connect failed'')] initial_state"

text \<open>Polls that name a member of \<^verbatim>\<open>Object.prototype\<close> as streamer or as requester.\<close>

definition queryCR :: query where
  "queryCR = \<lparr>q_streamerId = Some ''constructor'', q_requesterId = Some ''r''\<rparr>"

definition queryAC :: query where
  "queryAC = \<lparr>q_streamerId = Some ''a'', q_requesterId = Some ''constructor''\<rparr>"

definition queryAP :: query where
  "queryAP = \<lparr>q_streamerId = Some ''a'', q_requesterId = Some ''__proto__''\<rparr>"

section \<open>Basic facts about the acquisition\<close>

lemmas handler_defs = setStreamerId_def onDisconnect_def getEvents_def pollEvents_def
  answerPoll_def
  onUpstreamEvent_def onConnected_def onDisconnected_def emitTo_def forEachSocket_def
  getOrCreateTiktokConnectionWrapper_def Let_def step_def initial_state_def
  eventsOf_def socketsOf_def createInitialEventContainer_def sanitizeOptions_def
  emptyOptions_def newEventsSince_def deleteOldEvents_def typeAndData_def
  DELETE_EVENTS_AGE_def emptyObject_def objectPrototypeMembers_def assignNumber_def
  socketKey_def

lemmas transformer_defs = transformEvent_def eventTypeToTransformer_def eventTypesToStore_def
  userBaseData_def isPendingStreak_def

text \<open>The transformer table as a function of the kind.\<close>

lemma transformer_table:
  "map_of eventTypeToTransformer eventType =
    (if eventType = ''roomUser'' then Some (\<lambda>now d. \<lparr>ev_type = ''roomUser'', ev_timestamp = now,
         ev_data = RoomUserData (viewerCount d)\<rparr>)
     else if eventType = ''like'' then Some (\<lambda>now d. \<lparr>ev_type = ''like'', ev_timestamp = now,
         ev_data = LikeData (likeCount d) (totalLikeCount d) (userBaseData d)\<rparr>)
     else if eventType = ''chat'' then Some (\<lambda>now d. \<lparr>ev_type = ''chat'', ev_timestamp = now,
         ev_data = ChatData (comment d) (contentLanguage d) (userBaseData d)\<rparr>)
     else if eventType = ''gift'' then Some (\<lambda>now d. \<lparr>ev_type = ''gift'', ev_timestamp = now,
         ev_data = GiftData (giftId d) (giftName d) (giftType d) (giftPictureUrl d)
           (if \<not> isPendingStreak d \<and> jsGreaterZero (diamondCount d)
            then jsTimes (diamondCount d) (repeatCount d) else Num 0)
           (userBaseData d)\<rparr>)
     else if eventType = ''member'' then Some (\<lambda>now d. \<lparr>ev_type = ''member'', ev_timestamp = now,
         ev_data = MemberData (memberCount d) (userBaseData d)\<rparr>)
     else if eventType = ''share'' then Some (\<lambda>now d. \<lparr>ev_type = ''share'', ev_timestamp = now,
         ev_data = ShareData (shareCount d) (userBaseData d)\<rparr>)
     else if eventType = ''streamEnd'' then Some (\<lambda>now d. \<lparr>ev_type = ''streamEnd'', ev_timestamp = now,
         ev_data = RawData d\<rparr>)
     else if eventType = ''follow'' \<or> eventType = ''subscribe'' \<or> eventType = ''superFan''
       then Some (\<lambda>now d. \<lparr>ev_type = eventType, ev_timestamp = now,
         ev_data = UserData (userBaseData d)\<rparr>)
     else None)"
  by (simp add: eventTypeToTransformer_def)

lemma transformEvent_type: "ev_type (transformEvent eventType now d) = eventType"
  by (simp add: transformEvent_def transformer_table)

lemma transformEvent_timestamp: "ev_timestamp (transformEvent eventType now d) = now"
  by (simp add: transformEvent_def eventTypeToTransformer_def)

text \<open>Keys that name no member of \<^verbatim>\<open>Object.prototype\<close> are absent from a fresh object.\<close>

lemma emptyObject_ordinary: "key \<notin> set objectPrototypeMembers \<Longrightarrow> emptyObject key = None"
  by (simp add: emptyObject_def)

lemma emptyObject_member: "key \<in> set objectPrototypeMembers \<Longrightarrow> emptyObject key = Some Inherited"
  by (simp add: emptyObject_def)

lemma proto_member: "''__proto__'' \<in> set objectPrototypeMembers"
  by (simp add: objectPrototypeMembers_def)

lemma getOrCreate_hit:
  "streamerIdToTikTokConnectionWrapperMap s streamerId = Some found \<Longrightarrow>
   getOrCreateTiktokConnectionWrapper streamerId opts outcome s = ((Some found, None), s)"
  by (simp add: getOrCreateTiktokConnectionWrapper_def)

lemma getOrCreate_throw:
  "streamerIdToTikTokConnectionWrapperMap s streamerId = None \<Longrightarrow>
   getOrCreateTiktokConnectionWrapper streamerId opts (Some errStr) s = ((None, Some errStr), s)"
  by (simp add: getOrCreateTiktokConnectionWrapper_def)

lemma getOrCreate_create:
  "streamerIdToTikTokConnectionWrapperMap s streamerId = None \<Longrightarrow>
   getOrCreateTiktokConnectionWrapper streamerId opts None s =
     ((Some (Stored \<lparr>w_streamerId = streamerId, w_options = opts\<rparr>), None),
      s\<lparr>streamerIdToTikTokConnectionWrapperMap :=
           (streamerIdToTikTokConnectionWrapperMap s)
             (streamerId \<mapsto> Stored \<lparr>w_streamerId = streamerId, w_options = opts\<rparr>),
        connectedListener := (connectedListener s)(streamerId := True),
        disconnectedListener := (disconnectedListener s)(streamerId := True),
        constructed := constructed s @ [\<lparr>w_streamerId = streamerId, w_options = opts\<rparr>]\<rparr>)"
  by (simp add: getOrCreateTiktokConnectionWrapper_def Let_def)

lemma getOrCreate_frame:
  "streamEvents (snd (getOrCreateTiktokConnectionWrapper streamerId opts outcome s)) = streamEvents s"
  "requesterIdToLastRequestTimestamp (snd (getOrCreateTiktokConnectionWrapper streamerId opts outcome s))
     = requesterIdToLastRequestTimestamp s"
  "streamerIdToSocketsMap (snd (getOrCreateTiktokConnectionWrapper streamerId opts outcome s))
     = streamerIdToSocketsMap s"
  "socketTostreamerIdMap (snd (getOrCreateTiktokConnectionWrapper streamerId opts outcome s))
     = socketTostreamerIdMap s"
  "emitted (snd (getOrCreateTiktokConnectionWrapper streamerId opts outcome s)) = emitted s"
  "crashed (snd (getOrCreateTiktokConnectionWrapper streamerId opts outcome s)) = crashed s"
  by (simp_all add: getOrCreateTiktokConnectionWrapper_def Let_def split: option.splits)

lemma forEachSocket_frame:
  "streamEvents (forEachSocket streamerId name arg s) = streamEvents s"
  "requesterIdToLastRequestTimestamp (forEachSocket streamerId name arg s)
     = requesterIdToLastRequestTimestamp s"
  "streamerIdToTikTokConnectionWrapperMap (forEachSocket streamerId name arg s)
     = streamerIdToTikTokConnectionWrapperMap s"
  "streamerIdToSocketsMap (forEachSocket streamerId name arg s) = streamerIdToSocketsMap s"
  "socketTostreamerIdMap (forEachSocket streamerId name arg s) = socketTostreamerIdMap s"
  "constructed (forEachSocket streamerId name arg s) = constructed s"
  "connectedListener (forEachSocket streamerId name arg s) = connectedListener s"
  "disconnectedListener (forEachSocket streamerId name arg s) = disconnectedListener s"
  by (simp_all add: forEachSocket_def emitTo_def split: option.splits slot.splits)

text \<open>The listener of content events, field by field.\<close>

lemma onUpstreamEvent_events:
  "streamEvents s streamerId \<noteq> Some Inherited \<Longrightarrow>
   eventsOf (onUpstreamEvent streamerId eventType d now s) sid
     = (if sid = streamerId then eventsOf s streamerId @ [transformEvent eventType now d]
        else eventsOf s sid)"
  by (simp add: onUpstreamEvent_def forEachSocket_frame eventsOf_def Let_def
      createInitialEventContainer_def split: option.splits slot.splits)

lemma onUpstreamEvent_frame:
  "requesterIdToLastRequestTimestamp (onUpstreamEvent streamerId eventType d now s)
     = requesterIdToLastRequestTimestamp s"
  "streamerIdToTikTokConnectionWrapperMap (onUpstreamEvent streamerId eventType d now s)
     = streamerIdToTikTokConnectionWrapperMap s"
  "streamerIdToSocketsMap (onUpstreamEvent streamerId eventType d now s) = streamerIdToSocketsMap s"
  "socketTostreamerIdMap (onUpstreamEvent streamerId eventType d now s) = socketTostreamerIdMap s"
  "constructed (onUpstreamEvent streamerId eventType d now s) = constructed s"
  by (simp_all add: onUpstreamEvent_def forEachSocket_frame Let_def
      split: option.splits slot.splits)

lemma onUpstreamEvent_container:
  "streamEvents s streamerId \<noteq> Some Inherited \<Longrightarrow>
   streamEvents (onUpstreamEvent streamerId eventType d now s) streamerId \<noteq> Some Inherited"
  by (simp add: onUpstreamEvent_def forEachSocket_frame Let_def
      split: option.splits slot.splits)

lemma acquireFails_onUpstreamEvent:
  "acquireFails sid outcome (onUpstreamEvent streamerId eventType d now s) = acquireFails sid outcome s"
  by (simp add: acquireFails_def onUpstreamEvent_frame)

lemma getOrCreate_wrapper_stored:
  "streamerIdToTikTokConnectionWrapperMap s key \<noteq> Some Inherited \<Longrightarrow>
   streamerIdToTikTokConnectionWrapperMap
     (snd (getOrCreateTiktokConnectionWrapper streamerId opts outcome s)) key \<noteq> Some Inherited"
  by (simp add: getOrCreateTiktokConnectionWrapper_def Let_def split: option.splits)

lemma getOrCreate_keeps:
  "streamerIdToTikTokConnectionWrapperMap s key = Some found \<Longrightarrow>
   streamerIdToTikTokConnectionWrapperMap
     (snd (getOrCreateTiktokConnectionWrapper streamerId opts outcome s)) key = Some found"
  by (auto simp: getOrCreateTiktokConnectionWrapper_def Let_def split: option.splits)

lemma acquire_error:
  "truthyStr (snd (fst (getOrCreateTiktokConnectionWrapper streamerId opts outcome s)))
     = acquireFails streamerId outcome s"
  by (cases outcome)
     (simp_all add: acquireFails_def getOrCreateTiktokConnectionWrapper_def Let_def
        split: option.splits)

lemma answerPoll_frame:
  "streamerIdToSocketsMap (snd (answerPoll streamerId requesterId now s)) = streamerIdToSocketsMap s"
  "socketTostreamerIdMap (snd (answerPoll streamerId requesterId now s)) = socketTostreamerIdMap s"
  "emitted (snd (answerPoll streamerId requesterId now s)) = emitted s"
  "crashed (snd (answerPoll streamerId requesterId now s)) = crashed s"
  "streamerIdToTikTokConnectionWrapperMap (snd (answerPoll streamerId requesterId now s))
     = streamerIdToTikTokConnectionWrapperMap s"
  "constructed (snd (answerPoll streamerId requesterId now s)) = constructed s"
  by (simp_all add: answerPoll_def Let_def split: option.splits slot.splits)

lemma pollEvents_frame:
  "streamerIdToSocketsMap (snd (pollEvents streamerId requesterId now outcome s))
     = streamerIdToSocketsMap s"
  "socketTostreamerIdMap (snd (pollEvents streamerId requesterId now outcome s))
     = socketTostreamerIdMap s"
  "emitted (snd (pollEvents streamerId requesterId now outcome s)) = emitted s"
  "crashed (snd (pollEvents streamerId requesterId now outcome s)) = crashed s"
  "streamerIdToTikTokConnectionWrapperMap (snd (pollEvents streamerId requesterId now outcome s))
     = streamerIdToTikTokConnectionWrapperMap
         (snd (getOrCreateTiktokConnectionWrapper streamerId
            (emptyOptions\<lparr>enableExtendedGiftInfo := Some (JBool True)\<rparr>) outcome s))"
  "constructed (snd (pollEvents streamerId requesterId now outcome s))
     = constructed
         (snd (getOrCreateTiktokConnectionWrapper streamerId
            (emptyOptions\<lparr>enableExtendedGiftInfo := Some (JBool True)\<rparr>) outcome s))"
  by (simp_all add: pollEvents_def answerPoll_frame getOrCreate_frame Let_def)

text \<open>A request without both parameters changes nothing; any other is a poll.\<close>

lemma getEvents_cases:
  "snd (getEvents q now outcome s) = s
   \<or> (\<exists>streamerId requesterId. getEvents q now outcome s
         = pollEvents streamerId requesterId now outcome s
       \<and> q_requesterId q = Some requesterId)"
  by (auto simp: getEvents_def split: option.splits)

lemma setStreamerId_frame:
  "streamEvents (setStreamerId e sock streamerId optionsArg blocked outcome s) = streamEvents s"
  "requesterIdToLastRequestTimestamp (setStreamerId e sock streamerId optionsArg blocked outcome s)
     = requesterIdToLastRequestTimestamp s"
  by (simp_all add: setStreamerId_def emitTo_def getOrCreate_frame Let_def
      split: option.splits slot.splits)

lemma setStreamerId_acquired:
  "(streamerIdToTikTokConnectionWrapperMap (setStreamerId e sock streamerId optionsArg blocked outcome s)
      = streamerIdToTikTokConnectionWrapperMap s
    \<and> constructed (setStreamerId e sock streamerId optionsArg blocked outcome s) = constructed s)
   \<or> (streamerIdToTikTokConnectionWrapperMap (setStreamerId e sock streamerId optionsArg blocked outcome s)
      = streamerIdToTikTokConnectionWrapperMap
          (snd (getOrCreateTiktokConnectionWrapper streamerId (sanitizeOptions e optionsArg) outcome s))
    \<and> constructed (setStreamerId e sock streamerId optionsArg blocked outcome s)
      = constructed
          (snd (getOrCreateTiktokConnectionWrapper streamerId (sanitizeOptions e optionsArg) outcome s)))"
  by (simp add: setStreamerId_def emitTo_def getOrCreateTiktokConnectionWrapper_def Let_def
      split: option.splits slot.splits)

lemma onDisconnect_frame:
  "streamEvents (onDisconnect sock s) = streamEvents s"
  "requesterIdToLastRequestTimestamp (onDisconnect sock s) = requesterIdToLastRequestTimestamp s"
  "streamerIdToTikTokConnectionWrapperMap (onDisconnect sock s)
     = streamerIdToTikTokConnectionWrapperMap s"
  "constructed (onDisconnect sock s) = constructed s"
  by (simp_all add: onDisconnect_def split: option.splits slot.splits)

text \<open>No callback removes or replaces what the lookup of a wrapper finds.\<close>

lemma handle_keeps_wrapper:
  assumes "streamerIdToTikTokConnectionWrapperMap s streamerId = Some found"
  shows "streamerIdToTikTokConnectionWrapperMap (handle e a s) streamerId = Some found"
proof (cases a)
  case (SetStreamerId sock sid optionsArg blocked outcome)
  then show ?thesis
    using assms setStreamerId_acquired [of e sock sid optionsArg blocked outcome s]
      getOrCreate_keeps [OF assms, of sid "sanitizeOptions e optionsArg" outcome]
    by auto
next
  case (SocketDisconnect sock)
  then show ?thesis
    using assms by (simp add: onDisconnect_frame)
next
  case (GetEvents q now outcome)
  then show ?thesis
    using assms getEvents_cases [of q now outcome s]
    by (auto simp: pollEvents_frame getOrCreate_keeps)
next
  case (UpstreamEvent sid eventType d now)
  then show ?thesis
    using assms by (simp add: onUpstreamEvent_frame split: option.splits slot.splits)
next
  case (UpstreamConnected sid st)
  then show ?thesis
    using assms by (simp add: onConnected_def forEachSocket_frame)
next
  case (UpstreamDisconnected sid reason)
  then show ?thesis
    using assms by (simp add: onDisconnected_def forEachSocket_frame)
qed

lemma run_keeps_wrapper:
  "streamerIdToTikTokConnectionWrapperMap s streamerId = Some found \<Longrightarrow>
   streamerIdToTikTokConnectionWrapperMap (run e acts s) streamerId = Some found"
  by (induction acts arbitrary: s) (simp_all add: step_def handle_keeps_wrapper)

lemma run_append: "run e (xs @ ys) s = run e ys (run e xs s)"
  by (induction xs arbitrary: s) simp_all

section \<open>Keys that name no inherited member\<close>

lemma initial_noInherited:
  "key \<notin> set objectPrototypeMembers \<Longrightarrow> noInherited initial_state key"
  by (simp add: noInherited_def initial_state_def emptyObject_def)

lemma assignNumber_stored: "m key \<noteq> Some Inherited \<Longrightarrow> assignNumber m k n key \<noteq> Some Inherited"
  by (simp add: assignNumber_def)

lemma answerPoll_noInherited:
  assumes "noInherited s key"
  shows "noInherited (snd (answerPoll streamerId requesterId now s)) key"
proof -
  have a: "streamEvents (snd (answerPoll streamerId requesterId now s)) key \<noteq> Some Inherited"
    using assms
    by (auto simp: noInherited_def answerPoll_def Let_def split: option.splits slot.splits)
  have b: "requesterIdToLastRequestTimestamp (snd (answerPoll streamerId requesterId now s)) key
      \<noteq> Some Inherited"
    using assms
    by (auto simp: noInherited_def answerPoll_def Let_def assignNumber_def
        split: option.splits slot.splits)
  show ?thesis
    using assms a b by (simp add: noInherited_def answerPoll_frame)
qed

lemma getOrCreate_noInherited:
  assumes "noInherited s key"
  shows "noInherited (snd (getOrCreateTiktokConnectionWrapper streamerId opts outcome s)) key"
  using assms by (simp add: noInherited_def getOrCreate_frame getOrCreate_wrapper_stored)

lemma pollEvents_noInherited:
  assumes "noInherited s key"
  shows "noInherited (snd (pollEvents streamerId requesterId now outcome s)) key"
  using assms
  by (simp add: pollEvents_def Let_def answerPoll_noInherited getOrCreate_noInherited)

lemma getEvents_noInherited:
  assumes "noInherited s key"
  shows "noInherited (snd (getEvents q now outcome s)) key"
  using assms getEvents_cases [of q now outcome s]
  by (auto simp: pollEvents_noInherited)

lemma setStreamerId_noInherited:
  assumes "noInherited s key"
  shows "noInherited (setStreamerId e sock streamerId optionsArg blocked outcome s) key"
proof -
  have a: "streamEvents (setStreamerId e sock streamerId optionsArg blocked outcome s) key
      \<noteq> Some Inherited"
    using assms
    by (auto simp: noInherited_def setStreamerId_def emitTo_def getOrCreate_frame Let_def
        split: option.splits slot.splits)
  have b: "requesterIdToLastRequestTimestamp (setStreamerId e sock streamerId optionsArg blocked outcome s) key
      \<noteq> Some Inherited"
    using assms
    by (auto simp: noInherited_def setStreamerId_def emitTo_def getOrCreate_frame Let_def
        split: option.splits slot.splits)
  have c: "streamerIdToSocketsMap (setStreamerId e sock streamerId optionsArg blocked outcome s) key
      \<noteq> Some Inherited"
    using assms
    by (auto simp: noInherited_def setStreamerId_def emitTo_def getOrCreate_frame Let_def
        split: option.splits slot.splits)
  have d: "streamerIdToTikTokConnectionWrapperMap
        (setStreamerId e sock streamerId optionsArg blocked outcome s) key \<noteq> Some Inherited"
    using assms
    by (auto simp: noInherited_def setStreamerId_def emitTo_def getOrCreate_wrapper_stored Let_def
        split: option.splits slot.splits)
  show ?thesis using a b c d by (simp add: noInherited_def)
qed

lemma handle_noInherited:
  assumes "noInherited s key"
  shows "noInherited (handle e a s) key"
proof (cases a)
  case (SetStreamerId sock sid optionsArg blocked outcome)
  then show ?thesis using assms by (simp add: setStreamerId_noInherited)
next
  case (SocketDisconnect sock)
  then show ?thesis
    using assms by (auto simp: noInherited_def onDisconnect_def split: option.splits slot.splits)
next
  case (GetEvents q now outcome)
  then show ?thesis using assms by (simp add: getEvents_noInherited)
next
  case (UpstreamEvent sid eventType d now)
  then show ?thesis
    using assms
    by (auto simp: noInherited_def onUpstreamEvent_def forEachSocket_frame Let_def
        split: option.splits slot.splits)
next
  case (UpstreamConnected sid st)
  then show ?thesis
    using assms by (simp add: noInherited_def onConnected_def forEachSocket_frame)
next
  case (UpstreamDisconnected sid reason)
  then show ?thesis
    using assms by (simp add: noInherited_def onDisconnected_def forEachSocket_frame)
qed

lemma run_noInherited:
  "noInherited s key \<Longrightarrow> noInherited (run e acts s) key"
  by (induction acts arbitrary: s) (simp_all add: step_def handle_noInherited)

text \<open>
  In every state the server reaches, no lookup under a key that names no member of
  \<^verbatim>\<open>Object.prototype\<close> finds an inherited member.
\<close>

lemma reachable_noInherited:
  "key \<notin> set objectPrototypeMembers \<Longrightarrow> noInherited (run e acts initial_state) key"
  by (simp add: run_noInherited initial_noInherited)

text \<open>
  The lookup of a wrapper under a member's name finds the member from the start, and
  does so for ever: the acquisition never enters its creating branch for such a name.
\<close>

lemma reachable_member_wrapper:
  "key \<in> set objectPrototypeMembers \<Longrightarrow>
   streamerIdToTikTokConnectionWrapperMap (run e acts initial_state) key = Some Inherited"
  by (simp add: run_keeps_wrapper initial_state_def emptyObject_def)

text \<open>
  The invariant behind the single handle: the log of constructed wrappers holds one entry
  for a streamer that has a stored wrapper and none for any other.
\<close>

lemma getOrCreate_constructed_inv:
  assumes "\<forall>sid. count_list (map w_streamerId (constructed s)) sid =
       (if isStored (streamerIdToTikTokConnectionWrapperMap s sid) then 1 else 0)"
  shows "\<forall>sid. count_list (map w_streamerId
            (constructed (snd (getOrCreateTiktokConnectionWrapper streamerId opts outcome s)))) sid =
       (if isStored (streamerIdToTikTokConnectionWrapperMap
            (snd (getOrCreateTiktokConnectionWrapper streamerId opts outcome s)) sid) then 1 else 0)"
proof (cases "streamerIdToTikTokConnectionWrapperMap s streamerId")
  case None
  then show ?thesis
    using assms by (cases outcome) (simp_all add: getOrCreate_throw getOrCreate_create)
next
  case (Some found)
  then show ?thesis using assms by (simp add: getOrCreate_hit)
qed

lemma pollEvents_constructed_inv:
  assumes "\<forall>sid. count_list (map w_streamerId (constructed s)) sid =
       (if isStored (streamerIdToTikTokConnectionWrapperMap s sid) then 1 else 0)"
  shows "\<forall>sid. count_list (map w_streamerId
            (constructed (snd (pollEvents streamerId requesterId now outcome s)))) sid =
       (if isStored (streamerIdToTikTokConnectionWrapperMap
            (snd (pollEvents streamerId requesterId now outcome s)) sid) then 1 else 0)"
  using getOrCreate_constructed_inv [OF assms, of streamerId
      "emptyOptions\<lparr>enableExtendedGiftInfo := Some (JBool True)\<rparr>" outcome]
  by (simp add: pollEvents_frame)

lemma handle_constructed_inv:
  assumes "\<forall>sid. count_list (map w_streamerId (constructed s)) sid =
       (if isStored (streamerIdToTikTokConnectionWrapperMap s sid) then 1 else 0)"
  shows "\<forall>sid. count_list (map w_streamerId (constructed (handle e a s))) sid =
       (if isStored (streamerIdToTikTokConnectionWrapperMap (handle e a s) sid) then 1 else 0)"
proof (cases a)
  case (SetStreamerId sock streamerId optionsArg blocked outcome)
  then show ?thesis
    using assms setStreamerId_acquired [of e sock streamerId optionsArg blocked outcome s]
      getOrCreate_constructed_inv [OF assms, of streamerId "sanitizeOptions e optionsArg" outcome]
    by auto
next
  case (SocketDisconnect sock)
  then show ?thesis
    using assms by (simp add: onDisconnect_frame)
next
  case (GetEvents q now outcome)
  have "snd (getEvents q now outcome s) = s
   \<or> (\<exists>streamerId requesterId. getEvents q now outcome s
         = pollEvents streamerId requesterId now outcome s
       \<and> q_requesterId q = Some requesterId)"
    by (rule getEvents_cases)
  then show ?thesis
  proof
    assume "snd (getEvents q now outcome s) = s"
    then show ?thesis using assms GetEvents by simp
  next
    assume "\<exists>streamerId requesterId. getEvents q now outcome s
         = pollEvents streamerId requesterId now outcome s
       \<and> q_requesterId q = Some requesterId"
    then obtain streamerId requesterId where
      "getEvents q now outcome s = pollEvents streamerId requesterId now outcome s"
      by blast
    then show ?thesis
      using GetEvents pollEvents_constructed_inv [OF assms, of streamerId requesterId now outcome]
      by simp
  qed
next
  case (UpstreamEvent sid eventType d now)
  then show ?thesis
    using assms by (simp add: onUpstreamEvent_frame split: option.splits slot.splits)
next
  case (UpstreamConnected sid st)
  then show ?thesis
    using assms by (simp add: onConnected_def forEachSocket_frame)
next
  case (UpstreamDisconnected sid reason)
  then show ?thesis
    using assms by (simp add: onDisconnected_def forEachSocket_frame)
qed

lemma run_constructed_inv:
  assumes "\<forall>sid. count_list (map w_streamerId (constructed s)) sid =
       (if isStored (streamerIdToTikTokConnectionWrapperMap s sid) then 1 else 0)"
  shows "\<forall>sid. count_list (map w_streamerId (constructed (run e acts s))) sid =
       (if isStored (streamerIdToTikTokConnectionWrapperMap (run e acts s) sid) then 1 else 0)"
  using assms
proof (induction acts arbitrary: s)
  case Nil
  then show ?case by simp
next
  case (Cons a acts)
  have "\<forall>sid. count_list (map w_streamerId (constructed (step e a s))) sid =
       (if isStored (streamerIdToTikTokConnectionWrapperMap (step e a s) sid) then 1 else 0)"
    using Cons.prems handle_constructed_inv [of s e a] by (simp add: step_def)
  then show ?case using Cons.IH by simp
qed

text \<open>
  In every state the server reaches, the wrappers constructed for a streamer number one
  when a wrapper is stored for it and none otherwise: never more than one.
\<close>

lemma reachable_constructed:
  "count_list (map w_streamerId (constructed (run e acts initial_state))) sid =
     (if isStored (streamerIdToTikTokConnectionWrapperMap (run e acts initial_state) sid)
      then 1 else 0)"
proof -
  have "\<forall>sid. count_list (map w_streamerId (constructed initial_state)) sid =
       (if isStored (streamerIdToTikTokConnectionWrapperMap initial_state sid) then 1 else 0)"
    by (simp add: initial_state_def emptyObject_def)
  then show ?thesis using run_constructed_inv by blast
qed

section \<open>Polling: the outcomes\<close>

lemma answerPoll_first:
  assumes "\<not> truthyCursor (requesterIdToLastRequestTimestamp s requesterId)"
  shows "fst (answerPoll streamerId requesterId now s)
           = Json [] (Some ''New ID registered. No events yet.'')"
    and "requesterIdToLastRequestTimestamp (snd (answerPoll streamerId requesterId now s))
           = assignNumber (requesterIdToLastRequestTimestamp s) requesterId now"
    and "eventsOf (snd (answerPoll streamerId requesterId now s)) sid = eventsOf s sid"
  using assms
  by (simp_all add: answerPoll_def Let_def eventsOf_def createInitialEventContainer_def)

lemma answerPoll_next:
  assumes "requesterIdToLastRequestTimestamp s requesterId = Some (Stored c)" and "c \<noteq> 0"
    and "streamEvents s streamerId \<noteq> Some Inherited"
  shows "fst (answerPoll streamerId requesterId now s)
           = Json (map typeAndData (newEventsSince c (eventsOf s streamerId))) None"
    and "requesterIdToLastRequestTimestamp (snd (answerPoll streamerId requesterId now s))
           = assignNumber (requesterIdToLastRequestTimestamp s) requesterId now"
    and "eventsOf (snd (answerPoll streamerId requesterId now s)) sid
           = (if sid = streamerId then deleteOldEvents now (eventsOf s streamerId) else eventsOf s sid)"
  using assms
  by (auto simp: answerPoll_def Let_def eventsOf_def createInitialEventContainer_def
      deleteOldEvents_def newEventsSince_def split: option.splits slot.splits)

lemma answerPoll_throws:
  assumes "streamEvents s streamerId = Some Inherited"
    and "truthyCursor (requesterIdToLastRequestTimestamp s requesterId)"
  shows "answerPoll streamerId requesterId now s = (Status500, s)"
  using assms by (simp add: answerPoll_def Let_def)

lemma poll_fail:
  "acquireFails streamerId outcome s \<Longrightarrow>
   pollEvents streamerId requesterId now outcome s = (Json [] outcome, s)"
  by (cases outcome)
     (auto simp: acquireFails_def pollEvents_def getOrCreateTiktokConnectionWrapper_def Let_def
        split: option.splits)

lemma poll_ok:
  "\<not> acquireFails streamerId outcome s \<Longrightarrow>
   pollEvents streamerId requesterId now outcome s
     = answerPoll streamerId requesterId now
         (snd (getOrCreateTiktokConnectionWrapper streamerId
            (emptyOptions\<lparr>enableExtendedGiftInfo := Some (JBool True)\<rparr>) outcome s))"
  by (simp add: pollEvents_def Let_def acquire_error)

lemma eventsOf_getOrCreate:
  "eventsOf (snd (getOrCreateTiktokConnectionWrapper streamerId opts outcome s)) sid = eventsOf s sid"
  by (simp add: eventsOf_def getOrCreate_frame)

lemma poll_first:
  assumes "\<not> acquireFails streamerId outcome s"
    and "\<not> truthyCursor (requesterIdToLastRequestTimestamp s requesterId)"
  shows "fst (pollEvents streamerId requesterId now outcome s)
           = Json [] (Some ''New ID registered. No events yet.'')"
    and "requesterIdToLastRequestTimestamp (snd (pollEvents streamerId requesterId now outcome s))
           = assignNumber (requesterIdToLastRequestTimestamp s) requesterId now"
    and "eventsOf (snd (pollEvents streamerId requesterId now outcome s)) sid = eventsOf s sid"
  using assms
  by (simp_all add: poll_ok answerPoll_first getOrCreate_frame eventsOf_getOrCreate)

lemma poll_next:
  assumes "\<not> acquireFails streamerId outcome s"
    and "requesterIdToLastRequestTimestamp s requesterId = Some (Stored c)" and "c \<noteq> 0"
    and "streamEvents s streamerId \<noteq> Some Inherited"
  shows "fst (pollEvents streamerId requesterId now outcome s)
           = Json (map typeAndData (newEventsSince c (eventsOf s streamerId))) None"
    and "requesterIdToLastRequestTimestamp (snd (pollEvents streamerId requesterId now outcome s))
           = assignNumber (requesterIdToLastRequestTimestamp s) requesterId now"
    and "eventsOf (snd (pollEvents streamerId requesterId now outcome s)) sid
           = (if sid = streamerId then deleteOldEvents now (eventsOf s streamerId) else eventsOf s sid)"
  using assms
  by (simp_all add: poll_ok answerPoll_next getOrCreate_frame eventsOf_getOrCreate)

text \<open>
  A poll of a streamer whose container lookup finds an inherited member, by a requester
  whose cursor lookup is truthy, dies on line 241: status 500, and the cursor, the buffers
  and the socket lists are as before.
\<close>

lemma poll_throws:
  assumes "streamEvents s streamerId = Some Inherited"
    and "truthyCursor (requesterIdToLastRequestTimestamp s requesterId)"
    and "\<not> acquireFails streamerId outcome s"
  shows "fst (pollEvents streamerId requesterId now outcome s) = Status500"
    and "requesterIdToLastRequestTimestamp (snd (pollEvents streamerId requesterId now outcome s))
           = requesterIdToLastRequestTimestamp s"
    and "streamEvents (snd (pollEvents streamerId requesterId now outcome s)) = streamEvents s"
  using assms
  by (simp_all add: poll_ok answerPoll_throws getOrCreate_frame)


lemma answerPoll_other_cursor:
  "rid \<noteq> requesterId \<Longrightarrow>
   requesterIdToLastRequestTimestamp (snd (answerPoll streamerId rid now s)) requesterId
     = requesterIdToLastRequestTimestamp s requesterId"
  by (simp add: answerPoll_def Let_def assignNumber_def split: option.splits slot.splits)

lemma pollEvents_other_cursor:
  "rid \<noteq> requesterId \<Longrightarrow>
   requesterIdToLastRequestTimestamp (snd (pollEvents streamerId rid now outcome s)) requesterId
     = requesterIdToLastRequestTimestamp s requesterId"
  by (simp add: pollEvents_def Let_def answerPoll_other_cursor getOrCreate_frame)

lemma handle_keeps_cursor:
  assumes "\<not> isPollBy requesterId a"
  shows "requesterIdToLastRequestTimestamp (handle e a s) requesterId
     = requesterIdToLastRequestTimestamp s requesterId"
proof (cases a)
  case (SetStreamerId sock sid optionsArg blocked outcome)
  then show ?thesis by (simp add: setStreamerId_frame)
next
  case (SocketDisconnect sock)
  then show ?thesis by (simp add: onDisconnect_frame)
next
  case (GetEvents q now outcome)
  then show ?thesis
    using assms getEvents_cases [of q now outcome s]
    by (auto simp: pollEvents_other_cursor)
next
  case (UpstreamEvent sid eventType d now)
  then show ?thesis by (simp add: onUpstreamEvent_frame split: option.splits slot.splits)
next
  case (UpstreamConnected sid st)
  then show ?thesis by (simp add: onConnected_def forEachSocket_frame)
next
  case (UpstreamDisconnected sid reason)
  then show ?thesis by (simp add: onDisconnected_def forEachSocket_frame)
qed

lemma run_keeps_cursor:
  "list_all (\<lambda>a. \<not> isPollBy requesterId a) acts \<Longrightarrow>
   requesterIdToLastRequestTimestamp (run e acts s) requesterId
     = requesterIdToLastRequestTimestamp s requesterId"
  by (induction acts arbitrary: s) (simp_all add: step_def handle_keeps_cursor)

lemma getEvents_poll:
  "streamerId \<noteq> [] \<Longrightarrow> requesterId \<noteq> [] \<Longrightarrow>
   getEvents \<lparr>q_streamerId = Some streamerId, q_requesterId = Some requesterId\<rparr> now outcome s
     = pollEvents streamerId requesterId now outcome s"
  by (simp add: getEvents_def)

text \<open>What a poll sends to a requester whose cursor is a stored number.\<close>

lemma answerPoll_events_subset:
  assumes "requesterIdToLastRequestTimestamp s requesterId = Some (Stored c)"
  shows "sentEvents (fst (answerPoll streamerId requesterId now s)) = []
       \<or> sentEvents (fst (answerPoll streamerId requesterId now s))
           = map typeAndData (newEventsSince c (eventsOf s streamerId))"
  using assms
  by (auto simp: answerPoll_def Let_def eventsOf_def createInitialEventContainer_def
      newEventsSince_def split: option.splits slot.splits)

lemma poll_events_subset:
  assumes "requesterIdToLastRequestTimestamp s requesterId = Some (Stored c)"
  shows "sentEvents (fst (pollEvents streamerId requesterId now outcome s)) = []
       \<or> sentEvents (fst (pollEvents streamerId requesterId now outcome s))
           = map typeAndData (newEventsSince c (eventsOf s streamerId))"
proof (cases "acquireFails streamerId outcome s")
  case True
  then show ?thesis by (simp add: poll_fail)
next
  case False
  then show ?thesis
    using answerPoll_events_subset [of "snd (getOrCreateTiktokConnectionWrapper streamerId
            (emptyOptions\<lparr>enableExtendedGiftInfo := Some (JBool True)\<rparr>) outcome s)"
        requesterId c streamerId now] assms
    by (simp add: poll_ok getOrCreate_frame eventsOf_getOrCreate)
qed

section \<open>Where the cursor can move\<close>

lemma assignNumber_same:
  "key \<noteq> ''__proto__'' \<Longrightarrow> assignNumber m key n key = Some (Stored n)"
  by (simp add: assignNumber_def)

lemma assignNumber_cases:
  "assignNumber m key n k = m k \<or> assignNumber m key n k = Some (Stored n)"
  by (simp add: assignNumber_def)

lemma answerPoll_cursor_cases:
  "requesterIdToLastRequestTimestamp (snd (answerPoll streamerId requesterId now s))
     = requesterIdToLastRequestTimestamp s
   \<or> requesterIdToLastRequestTimestamp (snd (answerPoll streamerId requesterId now s))
     = assignNumber (requesterIdToLastRequestTimestamp s) requesterId now"
  by (simp add: answerPoll_def Let_def split: option.splits slot.splits)

lemma pollEvents_cursor_cases:
  "requesterIdToLastRequestTimestamp (snd (pollEvents streamerId requesterId now outcome s))
     = requesterIdToLastRequestTimestamp s
   \<or> requesterIdToLastRequestTimestamp (snd (pollEvents streamerId requesterId now outcome s))
     = assignNumber (requesterIdToLastRequestTimestamp s) requesterId now"
  using answerPoll_cursor_cases [of streamerId requesterId now
      "snd (getOrCreateTiktokConnectionWrapper streamerId
            (emptyOptions\<lparr>enableExtendedGiftInfo := Some (JBool True)\<rparr>) outcome s)"]
  by (simp add: pollEvents_def Let_def getOrCreate_frame)

lemma pollEvents_cursor_not_before:
  assumes "requesterIdToLastRequestTimestamp s requesterId = Some (Stored c)" and "t \<le> c"
    and "rid \<noteq> requesterId \<or> t \<le> now"
  shows "\<exists>c'. requesterIdToLastRequestTimestamp (snd (pollEvents streamerId rid now outcome s))
            requesterId = Some (Stored c') \<and> t \<le> c'"
proof (cases "rid = requesterId")
  case False
  then show ?thesis using assms by (simp add: pollEvents_other_cursor)
next
  case True
  then have now: "t \<le> now" using assms(3) by simp
  have "requesterIdToLastRequestTimestamp (snd (pollEvents streamerId rid now outcome s)) requesterId
      = requesterIdToLastRequestTimestamp s requesterId
    \<or> requesterIdToLastRequestTimestamp (snd (pollEvents streamerId rid now outcome s)) requesterId
      = Some (Stored now)"
    using pollEvents_cursor_cases [of streamerId rid now outcome s]
      assignNumber_cases [of "requesterIdToLastRequestTimestamp s" rid now requesterId]
    by auto
  then show ?thesis using assms(1,2) now by auto
qed

lemma handle_cursor_not_before:
  assumes "requesterIdToLastRequestTimestamp s requesterId = Some (Stored c)" and "t \<le> c"
    and "pollsNotBefore requesterId t a"
  shows "\<exists>c'. requesterIdToLastRequestTimestamp (handle e a s) requesterId = Some (Stored c')
       \<and> t \<le> c'"
proof (cases a)
  case (GetEvents q now outcome)
  have "snd (getEvents q now outcome s) = s
   \<or> (\<exists>streamerId rid. getEvents q now outcome s = pollEvents streamerId rid now outcome s
       \<and> q_requesterId q = Some rid)"
    by (rule getEvents_cases)
  then show ?thesis
  proof
    assume "snd (getEvents q now outcome s) = s"
    then show ?thesis using assms GetEvents by simp
  next
    assume "\<exists>streamerId rid. getEvents q now outcome s = pollEvents streamerId rid now outcome s
       \<and> q_requesterId q = Some rid"
    then obtain streamerId rid where
      g: "getEvents q now outcome s = pollEvents streamerId rid now outcome s"
      and q: "q_requesterId q = Some rid"
      by blast
    have "rid \<noteq> requesterId \<or> t \<le> now"
      using assms(3) GetEvents q by auto
    then show ?thesis
      using pollEvents_cursor_not_before [OF assms(1) assms(2), of rid now streamerId outcome]
        GetEvents g by simp
  qed
next
  case (SetStreamerId sock sid optionsArg blocked outcome)
  then show ?thesis
    using assms handle_keeps_cursor [of requesterId a e s] by simp
next
  case (SocketDisconnect sock)
  then show ?thesis
    using assms handle_keeps_cursor [of requesterId a e s] by simp
next
  case (UpstreamEvent sid eventType d now)
  then show ?thesis
    using assms handle_keeps_cursor [of requesterId a e s] by simp
next
  case (UpstreamConnected sid st)
  then show ?thesis
    using assms handle_keeps_cursor [of requesterId a e s] by simp
next
  case (UpstreamDisconnected sid reason)
  then show ?thesis
    using assms handle_keeps_cursor [of requesterId a e s] by simp
qed

lemma run_cursor_not_before:
  assumes "requesterIdToLastRequestTimestamp s requesterId = Some (Stored c)" and "t \<le> c"
    and "list_all (pollsNotBefore requesterId t) acts"
  shows "\<exists>c'. requesterIdToLastRequestTimestamp (run e acts s) requesterId = Some (Stored c')
       \<and> t \<le> c'"
  using assms
proof (induction acts arbitrary: s c)
  case Nil
  then show ?case by simp
next
  case (Cons a acts)
  have "\<exists>c'. requesterIdToLastRequestTimestamp (step e a s) requesterId = Some (Stored c')
      \<and> t \<le> c'"
    using Cons.prems handle_cursor_not_before [of s requesterId c t a e]
    by (auto simp: step_def)
  then obtain c' where "requesterIdToLastRequestTimestamp (step e a s) requesterId = Some (Stored c')"
    and "t \<le> c'" by blast
  then show ?case using Cons.IH [of "step e a s" c'] Cons.prems by simp
qed

lemma newEventsSince_mono:
  "t \<le> c \<Longrightarrow> set (newEventsSince c events) \<subseteq> set (newEventsSince t events)"
  by (auto simp: newEventsSince_def)

text \<open>
  Whatever a poll answers to a requester whose cursor is at least \<open>t\<close>, it is made of
  events stamped after \<open>t\<close>.
\<close>

lemma poll_events_after:
  assumes "requesterIdToLastRequestTimestamp s requesterId = Some (Stored c)" and "t \<le> c"
    and "streamerId \<noteq> []" and "requesterId \<noteq> []"
  shows "set (sentEvents (fst (getEvents
            \<lparr>q_streamerId = Some streamerId, q_requesterId = Some requesterId\<rparr> now outcome s)))
       \<subseteq> typeAndData ` set (newEventsSince t (eventsOf s streamerId))"
proof -
  have "sentEvents (fst (pollEvents streamerId requesterId now outcome s)) = []
       \<or> sentEvents (fst (pollEvents streamerId requesterId now outcome s))
           = map typeAndData (newEventsSince c (eventsOf s streamerId))"
    using poll_events_subset [OF assms(1)] by simp
  then have "set (sentEvents (fst (pollEvents streamerId requesterId now outcome s)))
       \<subseteq> typeAndData ` set (newEventsSince c (eventsOf s streamerId))"
    by auto
  also have "\<dots> \<subseteq> typeAndData ` set (newEventsSince t (eventsOf s streamerId))"
    using newEventsSince_mono [OF assms(2), of "eventsOf s streamerId"] by blast
  finally show ?thesis
    using assms(3,4) by (simp add: getEvents_poll)
qed

text \<open>What reaching a state from the start gives for keys that name no inherited member.\<close>

lemma reachable_container:
  "streamerId \<notin> set objectPrototypeMembers \<Longrightarrow>
   streamEvents (run e acts initial_state) streamerId \<noteq> Some Inherited"
  using reachable_noInherited [of streamerId e acts] by (simp add: noInherited_def)

lemma ordinary_not_proto: "key \<notin> set objectPrototypeMembers \<Longrightarrow> key \<noteq> ''__proto__''"
  using proto_member by auto

lemma poll_advances:
  assumes "\<not> acquireFails streamerId outcome s"
    and "requesterIdToLastRequestTimestamp s requesterId = Some (Stored c)" and "c \<noteq> 0"
    and "streamEvents s streamerId \<noteq> Some Inherited"
    and "requesterId \<noteq> ''__proto__''"
  shows "requesterIdToLastRequestTimestamp (snd (pollEvents streamerId requesterId now outcome s))
           requesterId = Some (Stored now)"
  using assms by (simp add: poll_next(2) assignNumber_same)

section \<open>One wrapper for each streamer\<close>

text \<open>
  C1 at the streamer identifier \<^verbatim>\<open>constructor\<close>. On the freshly started server the
  lookup of line 106 finds the inherited member of that name, which is truthy: the first
  acquisition returns it with no error and constructs and caches nothing, and so does the
  acquisition a poll makes. A subscribe to that streamer constructs nothing either and
  dies on line 184. For the streamer identifier \<^verbatim>\<open>a\<close> the first acquisition constructs
  the wrapper and caches it.
\<close>

theorem inherited_member_acquired:
  "getOrCreateTiktokConnectionWrapper ''constructor'' pollOptions None initial_state
     = ((Some Inherited, None), initial_state)
   \<and> constructed (snd (getEvents queryCR 1000 None initial_state)) = []
   \<and> streamerIdToTikTokConnectionWrapperMap (snd (getEvents queryCR 1000 None initial_state))
        ''constructor'' = Some Inherited
   \<and> constructed (setStreamerId noEnv socket0 ''constructor'' None False None initial_state) = []
   \<and> crashed (setStreamerId noEnv socket0 ''constructor'' None False None initial_state)
   \<and> fst (getOrCreateTiktokConnectionWrapper ''a'' pollOptions None initial_state)
     = (Some (Stored \<lparr>w_streamerId = ''a'', w_options = pollOptions\<rparr>), None)
   \<and> constructed (snd (getOrCreateTiktokConnectionWrapper ''a'' pollOptions None initial_state))
     = [\<lparr>w_streamerId = ''a'', w_options = pollOptions\<rparr>]"
  by (simp add: handler_defs queryCR_def noEnv_def)

section \<open>Gift normalisation\<close>

lemma bitLength_zero: "bitLength 0 = 0"
  by (simp add: bitLength.simps)

lemma bitLength_pos: "0 < n \<Longrightarrow> bitLength n = Suc (bitLength (n div 2))"
  by (subst bitLength.simps) simp

lemma bitLength_bound: "n < 2 ^ k \<Longrightarrow> bitLength n \<le> k"
proof (induction k arbitrary: n)
  case 0
  then show ?case by (simp add: bitLength_zero)
next
  case (Suc k)
  show ?case
  proof (cases "n = 0")
    case True
    then show ?thesis by (simp add: bitLength_zero)
  next
    case False
    have "n div 2 < 2 ^ k" using Suc.prems by auto
    then have "bitLength (n div 2) \<le> k" by (rule Suc.IH)
    then show ?thesis using False by (simp add: bitLength_pos)
  qed
qed

lemma bitLength_eq: "2 ^ k \<le> n \<Longrightarrow> n < 2 ^ Suc k \<Longrightarrow> bitLength n = Suc k"
proof (induction k arbitrary: n)
  case 0
  then have "n = 1" by simp
  then show ?case by (simp add: bitLength_pos bitLength_zero)
next
  case (Suc k)
  have "2 ^ k \<le> n div 2" using Suc.prems by auto
  moreover have "n div 2 < 2 ^ Suc k" using Suc.prems by auto
  ultimately have "bitLength (n div 2) = Suc k" by (rule Suc.IH)
  moreover have "0 < n" using Suc.prems by (cases "n = 0") simp_all
  ultimately show ?case by (simp add: bitLength_pos)
qed

lemma digits: "bitLength 9007199515875289 = 54"
  using bitLength_eq [of 53 9007199515875289] by simp

lemma bitLength_power: "bitLength (2 ^ k) = Suc k"
  by (induction k) (simp_all add: bitLength_pos bitLength_zero)

text \<open>An integer of magnitude up to \<open>2 ^ 53\<close> is a double: rounding leaves it as it is.\<close>

lemma roundToDouble_exact:
  assumes "\<bar>n\<bar> \<le> 2 ^ 53"
  shows "roundToDouble n = Num n"
proof -
  define m where "m = nat \<bar>n\<bar>"
  have m: "m \<le> 2 ^ 53" using assms by (simp add: m_def nat_le_iff)
  have small: "(2::nat) ^ 53 < 2 ^ 1024" by (rule power_strict_increasing) simp_all
  have signed: "(if n < 0 then - int m else int m) = n" by (simp add: m_def)
  show ?thesis
  proof (cases "m = 2 ^ 53")
    case True
    have e: "bitLength m - 53 = 1" unfolding True bitLength_power by simp
    have "roundToDouble n = Num (if n < 0 then - int m else int m)"
      using small unfolding roundToDouble_def m_def [symmetric] Let_def e
      by (simp add: True)
    then show ?thesis using signed by simp
  next
    case False
    then have "m < 2 ^ 53" using m by simp
    then have e: "bitLength m - 53 = 0" using bitLength_bound [of m 53] by simp
    have "m < 2 ^ 1024" using \<open>m < 2 ^ 53\<close> small by simp
    then have "roundToDouble n = Num (if n < 0 then - int m else int m)"
      unfolding roundToDouble_def m_def [symmetric] Let_def e
      by simp
    then show ?thesis using signed by simp
  qed
qed

lemma gift_envelope:
  "transformEvent ''gift'' now d =
     \<lparr>ev_type = ''gift'', ev_timestamp = now,
      ev_data = GiftData (giftId d) (giftName d) (giftType d) (giftPictureUrl d)
        (if \<not> isPendingStreak d \<and> jsGreaterZero (diamondCount d)
         then jsTimes (diamondCount d) (repeatCount d) else Num 0)
        (userBaseData d)\<rparr>"
  by (simp add: transformEvent_def transformer_table)

text \<open>
  C2. The gift transformer yields the envelope of kind gift whose diamondCount is 0 when
  the payload is a streak frame that has not ended (giftType is 1 and repeatEnd is not
  truthy) or the base diamond value is not greater than 0, and the product of the base
  value and repeatCount, as the language computes it, otherwise. Where both numbers are
  present and their product does not exceed \<open>2 ^ 53\<close> in magnitude, this is the exact
  product; for a boolean repeatEnd the first condition reads: giftType is 1 and repeatEnd
  is false. The three payloads of the specification give 0, 15 and 15; the third holds
  whatever repeatEnd is, also when it is absent.
\<close>

theorem gift_diamondCount:
  "transformEvent ''gift'' now d =
     \<lparr>ev_type = ''gift'', ev_timestamp = now,
      ev_data = GiftData (giftId d) (giftName d) (giftType d) (giftPictureUrl d)
        (if (giftType d = JNum 1 \<and> \<not> truthy (repeatEnd d)) \<or> \<not> jsGreaterZero (diamondCount d)
         then Num 0 else jsTimes (diamondCount d) (repeatCount d))
        (userBaseData d)\<rparr>
   \<and> (diamondCount d = Some base \<and> repeatCount d = Some count \<and> \<bar>base * count\<bar> \<le> 2 ^ 53 \<longrightarrow>
        gd_diamondCount (ev_data (transformEvent ''gift'' now (d\<lparr>repeatEnd := JBool ended\<rparr>))) =
          Num (if (giftType d = JNum 1 \<and> ended = False) \<or> base \<le> 0 then 0 else base * count))
   \<and> gd_diamondCount (ev_data (transformEvent ''gift'' now
        (d\<lparr>giftType := JNum 1, repeatEnd := JBool False, diamondCount := Some 5,
           repeatCount := Some 3\<rparr>))) = Num 0
   \<and> gd_diamondCount (ev_data (transformEvent ''gift'' now
        (d\<lparr>giftType := JNum 1, repeatEnd := JBool True, diamondCount := Some 5,
           repeatCount := Some 3\<rparr>))) = Num 15
   \<and> gd_diamondCount (ev_data (transformEvent ''gift'' now
        (d\<lparr>giftType := JNum 0, diamondCount := Some 5, repeatCount := Some 3\<rparr>))) = Num 15"
proof -
  have count: "gd_diamondCount (ev_data (transformEvent ''gift'' now x)) =
      (if (giftType x = JNum 1 \<and> \<not> truthy (repeatEnd x)) \<or> \<not> jsGreaterZero (diamondCount x)
       then Num 0 else jsTimes (diamondCount x) (repeatCount x))" for x
    by (auto simp: gift_envelope isPendingStreak_def)
  have envelope: "transformEvent ''gift'' now d =
     \<lparr>ev_type = ''gift'', ev_timestamp = now,
      ev_data = GiftData (giftId d) (giftName d) (giftType d) (giftPictureUrl d)
        (if (giftType d = JNum 1 \<and> \<not> truthy (repeatEnd d)) \<or> \<not> jsGreaterZero (diamondCount d)
         then Num 0 else jsTimes (diamondCount d) (repeatCount d))
        (userBaseData d)\<rparr>"
    by (auto simp: gift_envelope isPendingStreak_def)
  have exact: "diamondCount d = Some base \<and> repeatCount d = Some count \<and> \<bar>base * count\<bar> \<le> 2 ^ 53 \<longrightarrow>
        gd_diamondCount (ev_data (transformEvent ''gift'' now (d\<lparr>repeatEnd := JBool ended\<rparr>))) =
          Num (if (giftType d = JNum 1 \<and> ended = False) \<or> base \<le> 0 then 0 else base * count)"
    by (auto simp: count roundToDouble_exact)
  have fifteen: "roundToDouble 15 = Num 15"
    by (rule roundToDouble_exact) simp
  have pending: "gd_diamondCount (ev_data (transformEvent ''gift'' now
        (d\<lparr>giftType := JNum 1, repeatEnd := JBool False, diamondCount := Some 5,
           repeatCount := Some 3\<rparr>))) = Num 0"
    by (simp add: count)
  have ended: "gd_diamondCount (ev_data (transformEvent ''gift'' now
        (d\<lparr>giftType := JNum 1, repeatEnd := JBool True, diamondCount := Some 5,
           repeatCount := Some 3\<rparr>))) = Num 15"
    by (simp add: count fifteen)
  have single: "gd_diamondCount (ev_data (transformEvent ''gift'' now
        (d\<lparr>giftType := JNum 0, diamondCount := Some 5, repeatCount := Some 3\<rparr>))) = Num 15"
    by (simp add: count fifteen)
  from envelope exact pending ended single show ?thesis by blast
qed

text \<open>
  On concrete payloads: an ended streak of 7 diamonds repeated twice gives 14, the same
  without repeatEnd gives 0; a product beyond \<open>2 ^ 53\<close> is the nearest double, and an absent
  repeatCount gives \<^verbatim>\<open>NaN\<close>.
\<close>

theorem gift_diamondCount_witness:
  "diamondCount (blankData\<lparr>giftType := JNum 1, diamondCount := Some 7, repeatCount := Some 2\<rparr>)
     = Some 7
   \<and> \<bar>7 * 2 :: int\<bar> \<le> 2 ^ 53
   \<and> gd_diamondCount (ev_data (transformEvent ''gift'' 1000
      (blankData\<lparr>giftType := JNum 1, diamondCount := Some 7, repeatCount := Some 2,
         repeatEnd := JBool True\<rparr>))) = Num 14
   \<and> gd_diamondCount (ev_data (transformEvent ''gift'' 1000
      (blankData\<lparr>giftType := JNum 1, diamondCount := Some 7, repeatCount := Some 2\<rparr>))) = Num 0
   \<and> gd_diamondCount (ev_data (transformEvent ''gift'' 1000
      (blankData\<lparr>diamondCount := Some 94906267, repeatCount := Some 94906267\<rparr>)))
       = Num 9007199515875288
   \<and> gd_diamondCount (ev_data (transformEvent ''gift'' 1000
      (blankData\<lparr>diamondCount := Some 5\<rparr>))) = NaN"
proof -
  have big: "roundToDouble (94906267 * 94906267) = Num 9007199515875288"
    by (simp add: roundToDouble_def Let_def digits)
  show ?thesis
    using big
      gift_diamondCount [where now = 1000 and base = 7 and count = 2 and ended = True
        and d = "blankData\<lparr>giftType := JNum 1, diamondCount := Some 7, repeatCount := Some 2\<rparr>"]
      gift_diamondCount [where now = 1000 and base = 7 and count = 2 and ended = True
        and d = "blankData\<lparr>diamondCount := Some 94906267, repeatCount := Some 94906267\<rparr>"]
      gift_diamondCount [where now = 1000 and base = 7 and count = 2 and ended = True
        and d = "blankData\<lparr>diamondCount := Some 5\<rparr>"]
    by (simp add: blankData_def)
qed

section \<open>Sweeping the buffer\<close>

lemma deleteOldEvents_newer:
  "list_all (\<lambda>ev. now - DELETE_EVENTS_AGE < ev_timestamp ev) (deleteOldEvents now events)"
  by (simp add: deleteOldEvents_def list_all_iff)

lemma newEventsSince_newer:
  "bound \<le> c \<Longrightarrow> list_all (\<lambda>ev. bound < ev_timestamp ev) (newEventsSince c events)"
  by (auto simp: newEventsSince_def list_all_iff)

text \<open>
  C3, as the code has it, for identifiers that name no member of \<^verbatim>\<open>Object.prototype\<close>.
  A poll by a registered requester that obtains the wrapper answers with the events of
  the buffer, as it stands, that are stamped after the requester's cursor, and only
  afterwards removes the events not newer than now minus 30 minutes. So the buffer it
  leaves holds no event older than the window, and the answer holds none when the cursor
  itself lies within the window. A first poll and a poll whose wrapper creation fails
  answer with no events and remove nothing. The requester's cursor is absent or a stored
  number, so these are all the polls there are.
\<close>

theorem sweep_after_result:
  assumes "streamerId \<noteq> []" and "requesterId \<noteq> []"
    and "s = run e acts initial_state"
    and "streamerId \<notin> set objectPrototypeMembers"
    and "requesterId \<notin> set objectPrototypeMembers"
    and "r = getEvents \<lparr>q_streamerId = Some streamerId, q_requesterId = Some requesterId\<rparr>
               now outcome s"
  shows "(\<not> acquireFails streamerId outcome s
          \<and> requesterIdToLastRequestTimestamp s requesterId = Some (Stored c) \<and> c \<noteq> 0 \<longrightarrow>
            fst r = Json (map typeAndData (newEventsSince c (eventsOf s streamerId))) None
          \<and> eventsOf (snd r) streamerId = deleteOldEvents now (eventsOf s streamerId)
          \<and> list_all (\<lambda>ev. now - DELETE_EVENTS_AGE < ev_timestamp ev) (eventsOf (snd r) streamerId)
          \<and> list_all (\<lambda>ev. c < ev_timestamp ev) (newEventsSince c (eventsOf s streamerId))
          \<and> (now - DELETE_EVENTS_AGE \<le> c \<longrightarrow>
               list_all (\<lambda>ev. now - DELETE_EVENTS_AGE < ev_timestamp ev)
                 (newEventsSince c (eventsOf s streamerId))))
       \<and> (acquireFails streamerId outcome s
            \<or> (\<not> truthyCursor (requesterIdToLastRequestTimestamp s requesterId)) \<longrightarrow>
            sentEvents (fst r) = [] \<and> eventsOf (snd r) streamerId = eventsOf s streamerId)
       \<and> requesterIdToLastRequestTimestamp s requesterId \<noteq> Some Inherited"
proof -
  have r: "r = pollEvents streamerId requesterId now outcome s"
    using assms(1,2,6) by (simp add: getEvents_poll)
  have cont: "streamEvents s streamerId \<noteq> Some Inherited"
    using assms(3,4) by (simp add: reachable_container)
  have later: "\<not> acquireFails streamerId outcome s
          \<and> requesterIdToLastRequestTimestamp s requesterId = Some (Stored c) \<and> c \<noteq> 0 \<longrightarrow>
            fst r = Json (map typeAndData (newEventsSince c (eventsOf s streamerId))) None
          \<and> eventsOf (snd r) streamerId = deleteOldEvents now (eventsOf s streamerId)"
    using r cont poll_next(1) [of streamerId outcome s requesterId c now]
      poll_next(3) [of streamerId outcome s requesterId c now streamerId] by simp
  have swept: "\<not> acquireFails streamerId outcome s
          \<and> requesterIdToLastRequestTimestamp s requesterId = Some (Stored c) \<and> c \<noteq> 0 \<longrightarrow>
          list_all (\<lambda>ev. now - DELETE_EVENTS_AGE < ev_timestamp ev) (eventsOf (snd r) streamerId)"
    using later deleteOldEvents_newer [of now "eventsOf s streamerId"] by simp
  have newer: "list_all (\<lambda>ev. c < ev_timestamp ev) (newEventsSince c (eventsOf s streamerId))"
    by (simp add: newEventsSince_newer)
  have window: "now - DELETE_EVENTS_AGE \<le> c \<longrightarrow>
               list_all (\<lambda>ev. now - DELETE_EVENTS_AGE < ev_timestamp ev)
                 (newEventsSince c (eventsOf s streamerId))"
    by (simp add: newEventsSince_newer)
  have unswept: "acquireFails streamerId outcome s
            \<or> (\<not> truthyCursor (requesterIdToLastRequestTimestamp s requesterId)) \<longrightarrow>
            sentEvents (fst r) = [] \<and> eventsOf (snd r) streamerId = eventsOf s streamerId"
  proof (cases "acquireFails streamerId outcome s")
    case True
    then show ?thesis using r by (simp add: poll_fail)
  next
    case False
    then show ?thesis
      using r poll_first(1) [of streamerId outcome s requesterId now]
        poll_first(3) [of streamerId outcome s requesterId now streamerId] by auto
  qed
  have own: "requesterIdToLastRequestTimestamp s requesterId \<noteq> Some Inherited"
    using assms(3,5) reachable_noInherited [of requesterId e acts] by (simp add: noInherited_def)
  from later swept newer window unswept own show ?thesis by blast
qed

theorem sweep_after_result_witness:
  "\<not> acquireFails ''a'' None registeredA
   \<and> requesterIdToLastRequestTimestamp registeredA ''r'' = Some (Stored 1000)
   \<and> eventsOf registeredA ''a''
       = [\<lparr>ev_type = ''roomUser'', ev_timestamp = 2000, ev_data = RoomUserData (JNum 7)\<rparr>]
   \<and> fst (getEvents queryAR 3000 None registeredA) = Json [(''roomUser'', RoomUserData (JNum 7))] None
   \<and> eventsOf (snd (getEvents queryAR 3000 None registeredA)) ''a'' = eventsOf registeredA ''a''
   \<and> acquireFails ''b'' (Some ''Error: no such user'') registeredA
   \<and> sentEvents (fst (getEvents queryBR 3000 (Some ''Error: no such user'') registeredA)) = []"
proof -
  have ok: "\<not> acquireFails ''a'' None registeredA"
    by (simp add: registeredA_def handler_defs transformer_defs acquireFails_def queryAR_def
        queryBR_def noEnv_def viewers_def blankData_def)
  have reg: "requesterIdToLastRequestTimestamp registeredA ''r'' = Some (Stored 1000)"
    by (simp add: registeredA_def handler_defs transformer_defs acquireFails_def queryAR_def
        queryBR_def noEnv_def viewers_def blankData_def)
  have evs: "eventsOf registeredA ''a''
       = [\<lparr>ev_type = ''roomUser'', ev_timestamp = 2000, ev_data = RoomUserData (JNum 7)\<rparr>]"
    by (simp add: registeredA_def handler_defs transformer_defs acquireFails_def queryAR_def
        queryBR_def noEnv_def viewers_def blankData_def)
  have bad: "acquireFails ''b'' (Some ''Error: no such user'') registeredA"
    by (simp add: registeredA_def handler_defs transformer_defs acquireFails_def queryAR_def
        queryBR_def noEnv_def viewers_def blankData_def)
  have ids: "''a'' \<notin> set objectPrototypeMembers \<and> ''b'' \<notin> set objectPrototypeMembers
      \<and> ''r'' \<notin> set objectPrototypeMembers"
    by (simp add: objectPrototypeMembers_def)
  show ?thesis
    using ok reg evs bad ids
      sweep_after_result [where streamerId = "''a''" and requesterId = "''r''" and now = 3000
        and outcome = None and s = registeredA and c = 1000 and e = noEnv
        and acts = "[GetEvents queryAR 1000 None,
            UpstreamEvent ''a'' ''roomUser'' (viewers 7) 2000]",
        OF _ _ registeredA_def _ _ refl]
      sweep_after_result [where streamerId = "''b''" and requesterId = "''r''" and now = 3000
        and outcome = "Some ''Error: no such user''" and s = registeredA and c = 1000
        and e = noEnv
        and acts = "[GetEvents queryAR 1000 None,
            UpstreamEvent ''a'' ''roomUser'' (viewers 7) 2000]",
        OF _ _ registeredA_def _ _ refl]
    by (simp add: queryAR_def queryBR_def newEventsSince_def deleteOldEvents_def typeAndData_def
        DELETE_EVENTS_AGE_def)
qed

text \<open>
  C3 as stated fails: requester r registered at 1000, an event is stamped 2000, and r
  polls next at 1802001, when the event is older than 30 minutes. The answer contains
  the event; the buffer is empty only afterwards. Where an identifier names a member of
  \<^verbatim>\<open>Object.prototype\<close> the sweep goes differently again: the first poll of the requester
  \<^verbatim>\<open>constructor\<close> sweeps the buffer, and a poll of the streamer \<^verbatim>\<open>constructor\<close> by r is
  answered with status 500.
\<close>

theorem sweep_first_counterexample:
  "requesterIdToLastRequestTimestamp registeredA ''r'' = Some (Stored 1000)
   \<and> map ev_timestamp (eventsOf registeredA ''a'') = [2000]
   \<and> (2000::int) \<le> 1802001 - DELETE_EVENTS_AGE
   \<and> fst (getEvents queryAR 1802001 None registeredA)
       = Json [(''roomUser'', RoomUserData (JNum 7))] None
   \<and> eventsOf (snd (getEvents queryAR 1802001 None registeredA)) ''a'' = []
   \<and> fst (getEvents queryAC 1802001 None registeredA) = Json [] None
   \<and> eventsOf (snd (getEvents queryAC 1802001 None registeredA)) ''a'' = []
   \<and> fst (getEvents queryCR 1802001 None registeredA) = Status500"
  by (simp add: registeredA_def handler_defs transformer_defs queryAR_def noEnv_def
      viewers_def blankData_def queryAC_def queryCR_def)

section \<open>The first poll of a requester\<close>

text \<open>
  C4, as the code has it, for identifiers that name no member of \<^verbatim>\<open>Object.prototype\<close>.
  When the poll obtains the wrapper, a requester without a (non-zero) cursor is answered
  with no events and the registration message, whatever the buffer holds; the buffer
  stays as it is and the cursor becomes the current time. The requester's next poll of the
  streamer is then answered with the events stamped after the first poll only, and so is
  every later poll for any streamer, as long as the requester's polls do not read a time
  before that of the first. When the wrapper creation fails, the answer carries no events
  and the error text, and nothing is registered.
\<close>

theorem first_poll_baseline:
  assumes "streamerId \<noteq> []" and "requesterId \<noteq> []"
    and "s = run env before initial_state"
    and "streamerId \<notin> set objectPrototypeMembers"
    and "requesterId \<notin> set objectPrototypeMembers"
    and "\<not> truthyCursor (requesterIdToLastRequestTimestamp s requesterId)"
    and "r = getEvents \<lparr>q_streamerId = Some streamerId, q_requesterId = Some requesterId\<rparr>
               now outcome s"
    and "rNext = getEvents \<lparr>q_streamerId = Some streamerId, q_requesterId = Some requesterId\<rparr>
               nowNext outcomeNext (snd r)"
    and "sLater = run e acts (snd r)"
    and "rLater = getEvents \<lparr>q_streamerId = Some streamerLater, q_requesterId = Some requesterId\<rparr>
               nowLater outcomeLater sLater"
  shows "(\<not> acquireFails streamerId outcome s \<longrightarrow>
            fst r = Json [] (Some ''New ID registered. No events yet.'')
          \<and> requesterIdToLastRequestTimestamp (snd r) requesterId = Some (Stored now)
          \<and> eventsOf (snd r) streamerId = eventsOf s streamerId
          \<and> (now \<noteq> 0 \<and> \<not> acquireFails streamerId outcomeNext (snd r) \<longrightarrow>
               fst rNext = Json (map typeAndData (newEventsSince now (eventsOf s streamerId))) None)
          \<and> (streamerLater \<noteq> [] \<and> list_all (pollsNotBefore requesterId now) acts \<longrightarrow>
               set (sentEvents (fst rLater))
                 \<subseteq> typeAndData ` set (newEventsSince now (eventsOf sLater streamerLater))))
       \<and> (acquireFails streamerId outcome s \<longrightarrow>
            r = (Json [] outcome, s))"
proof -
  have r: "r = pollEvents streamerId requesterId now outcome s"
    using assms(1,2,7) by (simp add: getEvents_poll)
  have rNext: "rNext = pollEvents streamerId requesterId nowNext outcomeNext (snd r)"
    using assms(1,2,8) by (simp add: getEvents_poll)
  have proto: "requesterId \<noteq> ''__proto__''"
    using assms(5) by (rule ordinary_not_proto)
  have "noInherited s streamerId"
    using assms(3,4) by (simp add: reachable_noInherited)
  then have "noInherited (snd r) streamerId"
    using assms(7) by (simp add: getEvents_noInherited)
  then have cont: "streamEvents (snd r) streamerId \<noteq> Some Inherited"
    by (simp add: noInherited_def)
  have first: "\<not> acquireFails streamerId outcome s \<longrightarrow>
            fst r = Json [] (Some ''New ID registered. No events yet.'')
          \<and> requesterIdToLastRequestTimestamp (snd r) requesterId = Some (Stored now)
          \<and> eventsOf (snd r) streamerId = eventsOf s streamerId"
    using r assms(6) proto poll_first(1) [of streamerId outcome s requesterId now]
      poll_first(2) [of streamerId outcome s requesterId now]
      poll_first(3) [of streamerId outcome s requesterId now streamerId]
    by (simp add: assignNumber_same)
  have second: "\<not> acquireFails streamerId outcome s \<longrightarrow>
       now \<noteq> 0 \<and> \<not> acquireFails streamerId outcomeNext (snd r) \<longrightarrow>
       fst rNext = Json (map typeAndData (newEventsSince now (eventsOf s streamerId))) None"
    using first rNext cont poll_next(1) [of streamerId outcomeNext "snd r" requesterId now nowNext]
    by simp
  have later: "\<not> acquireFails streamerId outcome s \<longrightarrow>
       streamerLater \<noteq> [] \<and> list_all (pollsNotBefore requesterId now) acts \<longrightarrow>
       set (sentEvents (fst rLater)) \<subseteq> typeAndData ` set (newEventsSince now (eventsOf sLater streamerLater))"
  proof (intro impI)
    assume ok: "\<not> acquireFails streamerId outcome s"
      and h: "streamerLater \<noteq> [] \<and> list_all (pollsNotBefore requesterId now) acts"
    have c: "requesterIdToLastRequestTimestamp (snd r) requesterId = Some (Stored now)"
      using first ok by simp
    obtain c' where c': "requesterIdToLastRequestTimestamp sLater requesterId = Some (Stored c')"
        "now \<le> c'"
      using run_cursor_not_before [of "snd r" requesterId now now acts e] c h assms(9) by auto
    show "set (sentEvents (fst rLater)) \<subseteq> typeAndData ` set (newEventsSince now (eventsOf sLater streamerLater))"
      using poll_events_after [OF c', of streamerLater nowLater outcomeLater] h assms(2,10) by simp
  qed
  have fail: "acquireFails streamerId outcome s \<longrightarrow> r = (Json [] outcome, s)"
    using r by (simp add: poll_fail)
  from first second later fail show ?thesis by blast
qed

theorem first_poll_baseline_witness:
  "\<not> truthyCursor (requesterIdToLastRequestTimestamp bufferedA ''r'')
   \<and> \<not> acquireFails ''a'' None bufferedA
   \<and> map ev_timestamp (eventsOf bufferedA ''a'') = [700]
   \<and> fst (getEvents queryAR 1000 None bufferedA) = Json [] (Some ''New ID registered. No events yet.'')
   \<and> requesterIdToLastRequestTimestamp (snd (getEvents queryAR 1000 None bufferedA)) ''r''
       = Some (Stored 1000)
   \<and> fst (getEvents queryAR 1001 None (snd (getEvents queryAR 1000 None bufferedA))) = Json [] None
   \<and> list_all (pollsNotBefore ''r'' 1000)
        [GetEvents queryBR 1200 None, UpstreamEvent ''a'' ''roomUser'' (viewers 9) 1300]
   \<and> fst (getEvents queryAR 1400 None
        (run noEnv [GetEvents queryBR 1200 None, UpstreamEvent ''a'' ''roomUser'' (viewers 9) 1300]
           (snd (getEvents queryAR 1000 None bufferedA))))
       = Json [(''roomUser'', RoomUserData (JNum 9))] None
   \<and> acquireFails ''b'' (Some ''Error: boom'') initial_state
   \<and> getEvents queryBR 1000 (Some ''Error: boom'') initial_state
       = (Json [] (Some ''Error: boom''), initial_state)"
proof -
  have fresh: "\<not> truthyCursor (requesterIdToLastRequestTimestamp bufferedA ''r'')"
    by (simp add: bufferedA_def handler_defs transformer_defs acquireFails_def noEnv_def
        queryAR_def queryBR_def viewers_def blankData_def queryBQ_def)
  have ok: "\<not> acquireFails ''a'' None bufferedA"
    by (simp add: bufferedA_def handler_defs transformer_defs acquireFails_def noEnv_def
        queryAR_def queryBR_def viewers_def blankData_def queryBQ_def)
  have evs: "eventsOf bufferedA ''a''
      = [\<lparr>ev_type = ''roomUser'', ev_timestamp = 700, ev_data = RoomUserData (JNum 7)\<rparr>]"
    by (simp add: bufferedA_def handler_defs transformer_defs acquireFails_def noEnv_def
        queryAR_def queryBR_def viewers_def blankData_def queryBQ_def)
  have ok2: "\<not> acquireFails ''a'' None (snd (getEvents queryAR 1000 None bufferedA))"
    by (simp add: bufferedA_def handler_defs transformer_defs acquireFails_def noEnv_def
        queryAR_def queryBR_def viewers_def blankData_def queryBQ_def)
  have acts: "list_all (pollsNotBefore ''r'' 1000)
        [GetEvents queryBR 1200 None, UpstreamEvent ''a'' ''roomUser'' (viewers 9) 1300]"
    by (simp add: queryBR_def)
  have rLater: "fst (getEvents queryAR 1400 None
        (run noEnv [GetEvents queryBR 1200 None, UpstreamEvent ''a'' ''roomUser'' (viewers 9) 1300]
           (snd (getEvents queryAR 1000 None bufferedA))))
       = Json [(''roomUser'', RoomUserData (JNum 9))] None"
    by (simp add: bufferedA_def handler_defs transformer_defs acquireFails_def noEnv_def
        queryAR_def queryBR_def viewers_def blankData_def queryBQ_def)
  have fresh0: "\<not> truthyCursor (requesterIdToLastRequestTimestamp initial_state ''r'')"
    by (simp add: initial_state_def emptyObject_def objectPrototypeMembers_def)
  have bad: "acquireFails ''b'' (Some ''Error: boom'') initial_state"
    by (simp add: initial_state_def acquireFails_def emptyObject_def objectPrototypeMembers_def)
  have ids: "''a'' \<notin> set objectPrototypeMembers \<and> ''b'' \<notin> set objectPrototypeMembers
      \<and> ''r'' \<notin> set objectPrototypeMembers"
    by (simp add: objectPrototypeMembers_def)
  have start: "initial_state = run noEnv [] initial_state"
    by simp
  show ?thesis
    using fresh ok evs ok2 acts rLater bad ids
      first_poll_baseline [where streamerId = "''a''" and requesterId = "''r''" and s = bufferedA
        and now = 1000 and outcome = None and nowNext = 1001 and outcomeNext = None and e = noEnv
        and acts = "[GetEvents queryBR 1200 None, UpstreamEvent ''a'' ''roomUser'' (viewers 9) 1300]"
        and streamerLater = "''a''" and nowLater = 1400 and outcomeLater = None and env = noEnv
        and before = "[GetEvents queryBQ 500 None,
            GetEvents \<lparr>q_streamerId = Some ''a'', q_requesterId = Some ''q''\<rparr> 600 None,
            UpstreamEvent ''a'' ''roomUser'' (viewers 7) 700]",
        OF _ _ bufferedA_def _ _ fresh refl refl refl refl]
      first_poll_baseline [where streamerId = "''b''" and requesterId = "''r''"
        and s = initial_state and now = 1000 and outcome = "Some ''Error: boom''"
        and nowNext = 1001 and outcomeNext = None and e = noEnv and acts = "[]"
        and streamerLater = "''b''" and nowLater = 1400 and outcomeLater = None and env = noEnv
        and before = "[]",
        OF _ _ start _ _ fresh0 refl refl refl refl]
    by (simp add: queryAR_def queryBR_def newEventsSince_def)
qed

text \<open>
  C4 as stated fails when the first poll cannot create the wrapper: the answer carries the
  error text, not the registration message, and the requester has no cursor afterwards.
  It also fails for the requester \<^verbatim>\<open>constructor\<close>, whose first poll is answered without
  the registration message.
\<close>

theorem first_poll_counterexample:
  "requesterIdToLastRequestTimestamp initial_state ''r'' = None
   \<and> fst (getEvents queryAR 1000 (Some ''Error: boom'') initial_state)
       = Json [] (Some ''Error: boom'')
   \<and> requesterIdToLastRequestTimestamp
        (snd (getEvents queryAR 1000 (Some ''Error: boom'') initial_state)) ''r'' = None
   \<and> fst (getEvents queryAC 1000 None initial_state) = Json [] None"
  by (simp add: handler_defs transformer_defs queryAR_def queryAC_def)

section \<open>Advancing the cursor\<close>

lemma newEventsSince_append:
  "newEventsSince c (xs @ [ev])
     = newEventsSince c xs @ (if c < ev_timestamp ev then [ev] else [])"
  by (simp add: newEventsSince_def)

lemma nothing_new_later:
  assumes "newEventsSince c events = []" and "c \<le> t"
  shows "newEventsSince t (deleteOldEvents t events) = []"
proof -
  have "\<forall>ev \<in> set events. \<not> c < ev_timestamp ev"
    using assms(1) by (simp add: newEventsSince_def filter_empty_conv)
  then have "\<forall>ev \<in> set events. \<not> t < ev_timestamp ev"
    using assms(2) by auto
  then show ?thesis
    by (simp add: newEventsSince_def deleteOldEvents_def filter_empty_conv)
qed

text \<open>
  C5, as the code has it, for identifiers that name no member of \<^verbatim>\<open>Object.prototype\<close>.
  A poll by a registered requester that obtains the wrapper is answered from the buffer as
  it stands and sets the cursor to the current time, whatever it returns. When no buffered
  event is newer than the cursor and the clock has not gone back, this poll and the next
  are answered with no events. An event that the listener stores after such a poll, with a
  time te later than the time tA of the poll, is the last element of the answer to the
  requester's next poll.
\<close>

theorem cursor_advances:
  assumes "streamerId \<noteq> []" and "requesterId \<noteq> []"
    and "s = run env before initial_state"
    and "streamerId \<notin> set objectPrototypeMembers"
    and "requesterId \<notin> set objectPrototypeMembers"
    and "requesterIdToLastRequestTimestamp s requesterId = Some (Stored c)" and "c \<noteq> 0"
    and "\<not> acquireFails streamerId outcomeA s"
    and "q = \<lparr>q_streamerId = Some streamerId, q_requesterId = Some requesterId\<rparr>"
    and "rA = getEvents q tA outcomeA s"
  shows "fst rA = Json (map typeAndData (newEventsSince c (eventsOf s streamerId))) None
       \<and> requesterIdToLastRequestTimestamp (snd rA) requesterId = Some (Stored tA)
       \<and> (newEventsSince c (eventsOf s streamerId) = [] \<and> c \<le> tA \<and> tA \<noteq> 0
            \<and> \<not> acquireFails streamerId outcomeB (snd rA) \<longrightarrow>
            fst rA = Json [] None \<and> fst (getEvents q tB outcomeB (snd rA)) = Json [] None)
       \<and> (tA \<noteq> 0 \<and> tA < te \<and> \<not> acquireFails streamerId outcomeB (snd rA) \<longrightarrow>
            fst (getEvents q tB outcomeB (onUpstreamEvent streamerId eventType d te (snd rA)))
              = Json (map typeAndData (newEventsSince tA (eventsOf (snd rA) streamerId))
                      @ [typeAndData (transformEvent eventType te d)])
                  None)"
proof -
  have rA: "rA = pollEvents streamerId requesterId tA outcomeA s"
    using assms(1,2,9,10) by (simp add: getEvents_poll)
  have proto: "requesterId \<noteq> ''__proto__''"
    using assms(5) by (rule ordinary_not_proto)
  have own: "noInherited s streamerId"
    using assms(3,4) by (simp add: reachable_noInherited)
  then have cont: "streamEvents s streamerId \<noteq> Some Inherited"
    by (simp add: noInherited_def)
  have "noInherited (snd rA) streamerId"
    using own rA by (simp add: pollEvents_noInherited)
  then have contA: "streamEvents (snd rA) streamerId \<noteq> Some Inherited"
    by (simp add: noInherited_def)
  have resA: "fst rA = Json (map typeAndData (newEventsSince c (eventsOf s streamerId))) None"
    using rA poll_next(1) [OF assms(8) assms(6) assms(7) cont, of tA] by simp
  have curA: "requesterIdToLastRequestTimestamp (snd rA) requesterId = Some (Stored tA)"
    using rA poll_advances [OF assms(8) assms(6) assms(7) cont proto, of tA] by simp
  have bufA: "eventsOf (snd rA) streamerId = deleteOldEvents tA (eventsOf s streamerId)"
    using rA poll_next(3) [OF assms(8) assms(6) assms(7) cont, of tA streamerId] by simp
  have twice: "newEventsSince c (eventsOf s streamerId) = [] \<and> c \<le> tA \<and> tA \<noteq> 0
            \<and> \<not> acquireFails streamerId outcomeB (snd rA) \<longrightarrow>
            fst rA = Json [] None \<and> fst (getEvents q tB outcomeB (snd rA)) = Json [] None"
  proof (intro impI)
    assume h: "newEventsSince c (eventsOf s streamerId) = [] \<and> c \<le> tA \<and> tA \<noteq> 0
            \<and> \<not> acquireFails streamerId outcomeB (snd rA)"
    have a: "fst rA = Json [] None" using resA h by simp
    have "newEventsSince tA (eventsOf (snd rA) streamerId) = []"
      using bufA h nothing_new_later [of c "eventsOf s streamerId" tA] by simp
    moreover have "fst (getEvents q tB outcomeB (snd rA))
        = Json (map typeAndData (newEventsSince tA (eventsOf (snd rA) streamerId))) None"
      using h curA contA assms(1,2,9)
        poll_next(1) [of streamerId outcomeB "snd rA" requesterId tA tB]
      by (simp add: getEvents_poll)
    ultimately show "fst rA = Json [] None \<and> fst (getEvents q tB outcomeB (snd rA)) = Json [] None"
      using a by simp
  qed
  have between: "tA \<noteq> 0 \<and> tA < te \<and> \<not> acquireFails streamerId outcomeB (snd rA) \<longrightarrow>
            fst (getEvents q tB outcomeB (onUpstreamEvent streamerId eventType d te (snd rA)))
              = Json (map typeAndData (newEventsSince tA (eventsOf (snd rA) streamerId))
                      @ [typeAndData (transformEvent eventType te d)])
                  None"
  proof (intro impI)
    assume h: "tA \<noteq> 0 \<and> tA < te \<and> \<not> acquireFails streamerId outcomeB (snd rA)"
    let ?sB = "onUpstreamEvent streamerId eventType d te (snd rA)"
    have ok: "\<not> acquireFails streamerId outcomeB ?sB"
      using h by (simp add: acquireFails_onUpstreamEvent)
    have cur: "requesterIdToLastRequestTimestamp ?sB requesterId = Some (Stored tA)"
      using curA by (simp add: onUpstreamEvent_frame)
    have contB: "streamEvents ?sB streamerId \<noteq> Some Inherited"
      using contA by (rule onUpstreamEvent_container)
    have "fst (getEvents q tB outcomeB ?sB)
        = Json (map typeAndData (newEventsSince tA (eventsOf ?sB streamerId))) None"
      using h ok cur contB assms(1,2,9)
        poll_next(1) [of streamerId outcomeB ?sB requesterId tA tB]
      by (simp add: getEvents_poll)
    then show "fst (getEvents q tB outcomeB ?sB)
              = Json (map typeAndData (newEventsSince tA (eventsOf (snd rA) streamerId))
                      @ [typeAndData (transformEvent eventType te d)])
                  None"
      using h contA
      by (simp add: onUpstreamEvent_events newEventsSince_append transformEvent_timestamp)
  qed
  from resA curA twice between show ?thesis by blast
qed

theorem cursor_advances_witness:
  "requesterIdToLastRequestTimestamp registeredOnly ''r'' = Some (Stored 1000)
   \<and> \<not> acquireFails ''a'' None registeredOnly
   \<and> newEventsSince 1000 (eventsOf registeredOnly ''a'') = []
   \<and> requesterIdToLastRequestTimestamp (snd (getEvents queryAR 2000 None registeredOnly)) ''r''
       = Some (Stored 2000)
   \<and> fst (getEvents queryAR 2000 None registeredOnly) = Json [] None
   \<and> fst (getEvents queryAR 2001 None (snd (getEvents queryAR 2000 None registeredOnly)))
       = Json [] None
   \<and> fst (getEvents queryAR 3000 None
        (onUpstreamEvent ''a'' ''roomUser'' (viewers 7) 2500
           (snd (getEvents queryAR 2000 None registeredOnly))))
       = Json [(''roomUser'', RoomUserData (JNum 7))] None"
proof -
  have reg: "requesterIdToLastRequestTimestamp registeredOnly ''r'' = Some (Stored 1000)"
    by (simp add: registeredOnly_def handler_defs transformer_defs acquireFails_def
        queryAR_def viewers_def blankData_def noEnv_def)
  have ok: "\<not> acquireFails ''a'' None registeredOnly"
    by (simp add: registeredOnly_def handler_defs transformer_defs acquireFails_def
        queryAR_def viewers_def blankData_def noEnv_def)
  have none: "eventsOf registeredOnly ''a'' = []"
    by (simp add: registeredOnly_def handler_defs transformer_defs acquireFails_def
        queryAR_def viewers_def blankData_def noEnv_def)
  have ok2: "\<not> acquireFails ''a'' None (snd (getEvents queryAR 2000 None registeredOnly))"
    by (simp add: registeredOnly_def handler_defs transformer_defs acquireFails_def
        queryAR_def viewers_def blankData_def noEnv_def)
  have buf: "eventsOf (snd (getEvents queryAR 2000 None registeredOnly)) ''a'' = []"
    by (simp add: registeredOnly_def handler_defs transformer_defs acquireFails_def
        queryAR_def viewers_def blankData_def noEnv_def)
  have ids: "''a'' \<notin> set objectPrototypeMembers \<and> ''r'' \<notin> set objectPrototypeMembers"
    by (simp add: objectPrototypeMembers_def)
  show ?thesis
    using reg ok none ok2 buf ids
      cursor_advances [where streamerId = "''a''" and requesterId = "''r''"
        and s = registeredOnly and c = 1000 and outcomeA = None and q = queryAR and tA = 2000
        and outcomeB = None and tB = 2001 and eventType = "''roomUser''" and d = "viewers 7"
        and te = 2500 and env = noEnv and before = "[GetEvents queryAR 1000 None]",
        OF _ _ registeredOnly_def _ _ reg _ ok _ refl]
      cursor_advances [where streamerId = "''a''" and requesterId = "''r''"
        and s = registeredOnly and c = 1000 and outcomeA = None and q = queryAR and tA = 2000
        and outcomeB = None and tB = 3000 and eventType = "''roomUser''" and d = "viewers 7"
        and te = 2500 and env = noEnv and before = "[GetEvents queryAR 1000 None]",
        OF _ _ registeredOnly_def _ _ reg _ ok _ refl]
    by (simp add: queryAR_def newEventsSince_def typeAndData_def transformer_defs
        acquireFails_def viewers_def blankData_def)
qed

text \<open>
  C5 as stated fails. A poll whose wrapper creation fails leaves the cursor where it was:
  r, registered at 1000, polls b at 2000 and the creation throws. An event stored in the
  millisecond of the preceding poll is returned by no poll: r polls a at 2000 and is sent
  nothing, an event is stored at 2000, r polls at 2001 and at 2002 and is sent nothing. A
  poll of the streamer \<^verbatim>\<open>constructor\<close> is answered with status 500 and leaves the cursor
  where it was.
\<close>

theorem cursor_advances_counterexample:
  "requesterIdToLastRequestTimestamp registeredOnly ''r'' = Some (Stored 1000)
   \<and> getEvents queryBR 2000 (Some ''Error: boom'') registeredOnly
       = (Json [] (Some ''Error: boom''), registeredOnly)
   \<and> fst (getEvents queryAR 2000 None registeredOnly) = Json [] None
   \<and> eventsOf sameMillisecond ''a''
       = [\<lparr>ev_type = ''roomUser'', ev_timestamp = 2000, ev_data = RoomUserData (JNum 7)\<rparr>]
   \<and> fst (getEvents queryAR 2001 None sameMillisecond) = Json [] None
   \<and> fst (getEvents queryAR 2002 None (snd (getEvents queryAR 2001 None sameMillisecond)))
       = Json [] None
   \<and> fst (getEvents queryCR 2000 None registeredOnly) = Status500
   \<and> requesterIdToLastRequestTimestamp (snd (getEvents queryCR 2000 None registeredOnly)) ''r''
       = Some (Stored 1000)"
  by (simp add: sameMillisecond_def registeredOnly_def handler_defs transformer_defs
      queryAR_def queryBR_def queryCR_def noEnv_def viewers_def blankData_def)

section \<open>What a firing stores and what it broadcasts\<close>

lemma transformEvent_passThrough:
  assumes "eventType \<in> set passThroughTypes"
  shows "ev_data (transformEvent eventType now d) = RawData d"
proof -
  have "eventType = ''liveIntro'' \<or> eventType = ''emote'' \<or> eventType = ''envelope''
      \<or> eventType = ''streamEnd''"
    using assms by (simp add: passThroughTypes_def)
  then show ?thesis
    by (elim disjE) (simp_all add: transformEvent_def transformer_table)
qed

lemma onUpstreamEvent_emitted:
  assumes "streamEvents s streamerId \<noteq> Some Inherited"
    and "streamerIdToSocketsMap s streamerId \<noteq> Some Inherited"
  shows "emitted (onUpstreamEvent streamerId eventType d now s)
     = emitted s @ map (\<lambda>sock. (sock, eventType, ArgData (RawData d))) (socketsOf s streamerId)"
  using assms
  by (simp add: onUpstreamEvent_def forEachSocket_def emitTo_def socketsOf_def Let_def
      split: option.splits slot.splits)

text \<open>A streamer for which a wrapper is stored has a name that is no inherited member's.\<close>

lemma stored_wrapper_ordinary:
  assumes "streamerIdToTikTokConnectionWrapperMap (run e acts initial_state) streamerId
      = Some (Stored w)"
  shows "streamerId \<notin> set objectPrototypeMembers"
proof
  assume "streamerId \<in> set objectPrototypeMembers"
  then have "streamerIdToTikTokConnectionWrapperMap (run e acts initial_state) streamerId
      = Some Inherited"
    by (rule reachable_member_wrapper)
  then show False using assms by simp
qed

text \<open>
  C6, as the code has it. In a state the server reaches, a firing of a kind of the
  catalogue, for a streamer with a stored wrapper, appends the transformed envelope (of
  that kind, stamped now) to the streamer's buffer and emits the kind with the raw
  payload, as received, to every socket of the streamer's list, once for each entry and in
  list order. For the kinds stored by pass-through the data of the stored envelope is
  that raw payload.
\<close>

theorem broadcast_raw_payload:
  assumes "s = run env before initial_state"
    and "streamerIdToTikTokConnectionWrapperMap s streamerId = Some (Stored w)"
    and "eventType \<in> set eventTypesToStore"
    and "s' = handle e (UpstreamEvent streamerId eventType d now) s"
  shows "eventsOf s' streamerId = eventsOf s streamerId @ [transformEvent eventType now d]
       \<and> ev_type (transformEvent eventType now d) = eventType
       \<and> ev_timestamp (transformEvent eventType now d) = now
       \<and> emitted s' = emitted s
           @ map (\<lambda>sock. (sock, eventType, ArgData (RawData d))) (socketsOf s streamerId)
       \<and> (eventType \<in> set passThroughTypes \<longrightarrow>
            ev_data (transformEvent eventType now d) = RawData d)"
proof -
  have s': "s' = onUpstreamEvent streamerId eventType d now s"
    using assms(2,3,4) by simp
  have "streamerId \<notin> set objectPrototypeMembers"
    using assms(1,2) stored_wrapper_ordinary by simp
  then have own: "noInherited s streamerId"
    using assms(1) by (simp add: reachable_noInherited)
  have cont: "streamEvents s streamerId \<noteq> Some Inherited"
    using own by (simp add: noInherited_def)
  have list: "streamerIdToSocketsMap s streamerId \<noteq> Some Inherited"
    using own by (simp add: noInherited_def)
  have buf: "eventsOf s' streamerId = eventsOf s streamerId @ [transformEvent eventType now d]"
    using s' cont by (simp add: onUpstreamEvent_events)
  have out: "emitted s' = emitted s
           @ map (\<lambda>sock. (sock, eventType, ArgData (RawData d))) (socketsOf s streamerId)"
    using s' cont list by (simp add: onUpstreamEvent_emitted)
  from buf out show ?thesis
    by (simp add: transformEvent_type transformEvent_timestamp transformEvent_passThrough)
qed

theorem broadcast_raw_payload_witness:
  "streamerIdToTikTokConnectionWrapperMap chatFired ''a''
     = Some (Stored \<lparr>w_streamerId = ''a'', w_options = emptyOptions\<rparr>)
   \<and> ''streamEnd'' \<in> set eventTypesToStore \<and> ''streamEnd'' \<in> set passThroughTypes
   \<and> ''gift'' \<in> set eventTypesToStore
   \<and> socketsOf chatFired ''a'' = [socket0]
   \<and> map ev_type (eventsOf (handle noEnv (UpstreamEvent ''a'' ''streamEnd'' blankData 6000) chatFired) ''a'')
       = [''chat'', ''streamEnd'']
   \<and> ev_data (transformEvent ''streamEnd'' 6000 blankData) = RawData blankData
   \<and> emitted (handle noEnv (UpstreamEvent ''a'' ''gift'' blankData 6000) chatFired)
       = emitted chatFired @ [(socket0, ''gift'', ArgData (RawData blankData))]"
proof -
  have cached: "streamerIdToTikTokConnectionWrapperMap chatFired ''a''
     = Some (Stored \<lparr>w_streamerId = ''a'', w_options = emptyOptions\<rparr>)"
    by (simp add: chatFired_def handler_defs transformer_defs noEnv_def blankData_def
        socket0_def chatData_def)
  have k1: "''streamEnd'' \<in> set eventTypesToStore \<and> ''streamEnd'' \<in> set passThroughTypes"
    by (simp add: eventTypesToStore_def passThroughTypes_def)
  have k2: "''gift'' \<in> set eventTypesToStore"
    by (simp add: eventTypesToStore_def)
  have socks: "socketsOf chatFired ''a'' = [socket0]"
    by (simp add: chatFired_def handler_defs transformer_defs noEnv_def blankData_def
        socket0_def chatData_def)
  have types: "map ev_type (eventsOf chatFired ''a'') = [''chat'']"
    by (simp add: chatFired_def handler_defs transformer_defs noEnv_def blankData_def
        socket0_def chatData_def)
  show ?thesis
    using cached k1 k2 socks types
      broadcast_raw_payload [where s = chatFired and streamerId = "''a''"
        and eventType = "''streamEnd''" and e = noEnv and d = blankData and now = 6000
        and env = noEnv
        and before = "[SetStreamerId socket0 ''a'' None False None,
            UpstreamEvent ''a'' ''chat'' chatData 5000]",
        OF chatFired_def cached _ refl]
      broadcast_raw_payload [where s = chatFired and streamerId = "''a''"
        and eventType = "''gift''" and e = noEnv and d = blankData and now = 6000
        and env = noEnv
        and before = "[SetStreamerId socket0 ''a'' None False None,
            UpstreamEvent ''a'' ''chat'' chatData 5000]",
        OF chatFired_def cached _ refl]
    by simp
qed

text \<open>
  C6 as stated fails: after a chat firing the socket has been sent the raw payload, while
  the buffer holds the envelope with comment, contentLanguage and user.
\<close>

theorem broadcast_counterexample:
  "emitted chatFired = [(socket0, ''chat'', ArgData (RawData chatData))]
   \<and> eventsOf chatFired ''a''
       = [\<lparr>ev_type = ''chat'', ev_timestamp = 5000,
           ev_data = ChatData (JStr ''hi'') JUndefined
             (UserBase (JStr ''u1'') (JStr ''alice'') (JStr ''Alice'') JUndefined)\<rparr>]
   \<and> RawData chatData \<noteq> ChatData (JStr ''hi'') JUndefined
             (UserBase (JStr ''u1'') (JStr ''alice'') (JStr ''Alice'') JUndefined)"
  by (simp add: chatFired_def chatData_def socket0_def handler_defs transformer_defs
      blankData_def noEnv_def)

section \<open>Socket lists\<close>

lemma socketsOf_getOrCreate:
  "socketsOf (snd (getOrCreateTiktokConnectionWrapper streamerId opts outcome s)) sid = socketsOf s sid"
  by (simp add: socketsOf_def getOrCreate_frame)





section \<open>Failures of the wrapper\<close>

text \<open>
  C8, as the code has it. When the constructor or the connect call throws, the acquisition
  returns the error text as a value and leaves the state as it was: nothing is cached and
  nothing counts as constructed, so the next acquisition constructs anew. The polling
  endpoint answers such a failure, for a non-empty error text, with no events and the text
  as message, and changes nothing. A wrapper that was cached, in contrast, stays cached
  through every later callback, the wrapper's disconnected signal included, and every later
  acquisition returns it.
\<close>

theorem thrown_failure_is_value:
  assumes "streamerIdToTikTokConnectionWrapperMap s streamerId = None"
    and "r = getOrCreateTiktokConnectionWrapper streamerId opts (Some errStr) s"
  shows "r = ((None, Some errStr), s)
       \<and> streamerIdToTikTokConnectionWrapperMap (snd r) streamerId = None
       \<and> constructed (snd r) = constructed s
       \<and> fst (getOrCreateTiktokConnectionWrapper streamerId opts2 None (snd r))
           = (Some (Stored \<lparr>w_streamerId = streamerId, w_options = opts2\<rparr>), None)
       \<and> constructed (snd (getOrCreateTiktokConnectionWrapper streamerId opts2 None (snd r)))
           = constructed s @ [\<lparr>w_streamerId = streamerId, w_options = opts2\<rparr>]
       \<and> (streamerId \<noteq> [] \<and> requesterId \<noteq> [] \<and> errStr \<noteq> [] \<longrightarrow>
            getEvents \<lparr>q_streamerId = Some streamerId, q_requesterId = Some requesterId\<rparr>
              now (Some errStr) s = (Json [] (Some errStr), s))
       \<and> (streamerIdToTikTokConnectionWrapperMap s2 streamerId = Some w \<longrightarrow>
            streamerIdToTikTokConnectionWrapperMap (run e acts s2) streamerId = Some w
            \<and> getOrCreateTiktokConnectionWrapper streamerId opts2 outcome (run e acts s2)
                = ((Some w, None), run e acts s2))"
proof -
  have r: "r = ((None, Some errStr), s)"
    using assms by (simp add: getOrCreate_throw)
  have retry: "fst (getOrCreateTiktokConnectionWrapper streamerId opts2 None (snd r))
           = (Some (Stored \<lparr>w_streamerId = streamerId, w_options = opts2\<rparr>), None)
       \<and> constructed (snd (getOrCreateTiktokConnectionWrapper streamerId opts2 None (snd r)))
           = constructed s @ [\<lparr>w_streamerId = streamerId, w_options = opts2\<rparr>]"
    using r assms(1) by (simp add: getOrCreate_create)
  have pull: "streamerId \<noteq> [] \<and> requesterId \<noteq> [] \<and> errStr \<noteq> [] \<longrightarrow>
            getEvents \<lparr>q_streamerId = Some streamerId, q_requesterId = Some requesterId\<rparr>
              now (Some errStr) s = (Json [] (Some errStr), s)"
    using assms(1) by (simp add: getEvents_poll poll_fail acquireFails_def)
  have kept: "streamerIdToTikTokConnectionWrapperMap s2 streamerId = Some w \<longrightarrow>
            streamerIdToTikTokConnectionWrapperMap (run e acts s2) streamerId = Some w
            \<and> getOrCreateTiktokConnectionWrapper streamerId opts2 outcome (run e acts s2)
                = ((Some w, None), run e acts s2)"
    by (simp add: run_keeps_wrapper getOrCreate_hit)
  from r retry pull kept assms(1) show ?thesis by simp
qed

theorem thrown_failure_is_value_witness:
  "streamerIdToTikTokConnectionWrapperMap initial_state ''a'' = None
   \<and> getOrCreateTiktokConnectionWrapper ''a'' pollOptions (Some ''Error: boom'') initial_state
       = ((None, Some ''Error: boom''), initial_state)
   \<and> fst (getOrCreateTiktokConnectionWrapper ''a'' pollOptions None
         (snd (getOrCreateTiktokConnectionWrapper ''a'' pollOptions (Some ''Error: boom'')
                 initial_state)))
       = (Some (Stored \<lparr>w_streamerId = ''a'', w_options = pollOptions\<rparr>), None)
   \<and> getEvents queryAR 1000 (Some ''Error: boom'') initial_state
       = (Json [] (Some ''Error: boom''), initial_state)
   \<and> streamerIdToTikTokConnectionWrapperMap registeredOnly ''a''
       = Some (Stored \<lparr>w_streamerId = ''a'', w_options = pollOptions\<rparr>)
   \<and> streamerIdToTikTokConnectionWrapperMap
        (run noEnv [UpstreamDisconnected ''a'' (JStr ''Error: connect failed'')] registeredOnly) ''a''
       = Some (Stored \<lparr>w_streamerId = ''a'', w_options = pollOptions\<rparr>)"
proof -
  have none: "streamerIdToTikTokConnectionWrapperMap initial_state ''a'' = None"
    by (simp add: initial_state_def emptyObject_def objectPrototypeMembers_def)
  have cached: "streamerIdToTikTokConnectionWrapperMap registeredOnly ''a''
       = Some (Stored \<lparr>w_streamerId = ''a'', w_options = pollOptions\<rparr>)"
    by (simp add: registeredOnly_def handler_defs transformer_defs noEnv_def pollOptions_def
        queryAR_def)
  show ?thesis
    using none cached
      thrown_failure_is_value [OF none refl, of pollOptions "''Error: boom''" pollOptions "''r''"
        1000 registeredOnly "Stored \<lparr>w_streamerId = ''a'', w_options = pollOptions\<rparr>" noEnv
        "[UpstreamDisconnected ''a'' (JStr ''Error: connect failed'')]" None]
    by (auto simp: queryAR_def)
qed

text \<open>
  C8 as stated fails for a failure after the connect call has returned: the wrapper was
  cached in the run that created it; after the wrapper signals the failed connect it is
  still cached, the next acquisition returns it and constructs nothing, and the poll
  reports no error. An empty error text is not reported by the poll either.
\<close>

theorem async_failure_counterexample:
  "streamerIdToTikTokConnectionWrapperMap asyncFailed ''a''
     = Some (Stored \<lparr>w_streamerId = ''a'', w_options = pollOptions\<rparr>)
   \<and> fst (getOrCreateTiktokConnectionWrapper ''a'' pollOptions None asyncFailed)
     = (Some (Stored \<lparr>w_streamerId = ''a'', w_options = pollOptions\<rparr>), None)
   \<and> constructed (snd (getOrCreateTiktokConnectionWrapper ''a'' pollOptions None asyncFailed))
     = [\<lparr>w_streamerId = ''a'', w_options = pollOptions\<rparr>]
   \<and> fst (getEvents queryAR 2000 None asyncFailed) = Json [] None
   \<and> fst (getEvents queryBR 2000 (Some []) asyncFailed) = Json [] None"
  by (simp add: asyncFailed_def handler_defs transformer_defs pollOptions_def queryAR_def
      queryBR_def noEnv_def)

section \<open>Options reaching the constructor\<close>

lemma sanitize_clean:
  "requestOptions (sanitizeOptions e optionsArg) = None"
  "websocketOptions (sanitizeOptions e optionsArg) = None"
  "SESSIONID e = Some c \<Longrightarrow> c \<noteq> [] \<Longrightarrow> sessionId (sanitizeOptions e optionsArg) = Some (JStr c)"
  by (simp_all add: sanitizeOptions_def emptyOptions_def Let_def split: option.splits)

lemma sanitize_cleanOptions: "cleanOptions e (sanitizeOptions e optionsArg)"
  by (cases "SESSIONID e") (simp_all add: cleanOptions_def sanitize_clean)

lemma pollOptions_clean:
  "requestOptions pollOptions = None" "websocketOptions pollOptions = None"
  "sessionId pollOptions = None"
  by (simp_all add: pollOptions_def emptyOptions_def)

lemma pollOptions_cleanOptions: "cleanOptions e pollOptions"
  by (simp add: cleanOptions_def pollOptions_clean)

lemma getOrCreate_constructed:
  "constructed (snd (getOrCreateTiktokConnectionWrapper streamerId opts outcome s)) = constructed s
   \<or> constructed (snd (getOrCreateTiktokConnectionWrapper streamerId opts outcome s))
       = constructed s @ [\<lparr>w_streamerId = streamerId, w_options = opts\<rparr>]"
  by (simp add: getOrCreateTiktokConnectionWrapper_def Let_def split: option.splits)

lemma setStreamerId_constructed:
  "constructed (setStreamerId e sock streamerId optionsArg blocked outcome s) = constructed s
   \<or> constructed (setStreamerId e sock streamerId optionsArg blocked outcome s)
       = constructed s @ [\<lparr>w_streamerId = streamerId, w_options = sanitizeOptions e optionsArg\<rparr>]"
  using setStreamerId_acquired [of e sock streamerId optionsArg blocked outcome s]
    getOrCreate_constructed [of streamerId "sanitizeOptions e optionsArg" outcome s]
  by auto

lemma pollEvents_constructed:
  "constructed (snd (pollEvents streamerId requesterId now outcome s)) = constructed s
   \<or> constructed (snd (pollEvents streamerId requesterId now outcome s))
       = constructed s @ [\<lparr>w_streamerId = streamerId, w_options = pollOptions\<rparr>]"
  using getOrCreate_constructed [of streamerId pollOptions outcome s]
  by (simp add: pollEvents_frame pollOptions_def)

lemma getEvents_constructed:
  "constructed (snd (getEvents q now outcome s)) = constructed s
   \<or> (\<exists>streamerId. constructed (snd (getEvents q now outcome s))
       = constructed s @ [\<lparr>w_streamerId = streamerId, w_options = pollOptions\<rparr>])"
proof (cases "\<exists>streamerId requesterId. streamerId \<noteq> [] \<and> requesterId \<noteq> []
    \<and> q_streamerId q = Some streamerId \<and> q_requesterId q = Some requesterId")
  case True
  then obtain streamerId requesterId where
    "getEvents q now outcome s = pollEvents streamerId requesterId now outcome s"
    by (auto simp: getEvents_def)
  then show ?thesis
    using pollEvents_constructed [of streamerId requesterId now outcome s] by auto
next
  case False
  then have "snd (getEvents q now outcome s) = s"
    by (auto simp: getEvents_def split: option.splits)
  then show ?thesis by simp
qed

lemma handle_constructed_clean:
  assumes "list_all (\<lambda>w. cleanOptions e (w_options w)) (constructed s)"
  shows "list_all (\<lambda>w. cleanOptions e (w_options w)) (constructed (handle e a s))"
proof (cases a)
  case (SetStreamerId sock streamerId optionsArg blocked outcome)
  then show ?thesis
    using assms setStreamerId_constructed [of e sock streamerId optionsArg blocked outcome s]
    by (auto simp: sanitize_cleanOptions)
next
  case (GetEvents q now outcome)
  then show ?thesis
    using assms getEvents_constructed [of q now outcome s]
    by (auto simp: pollOptions_cleanOptions)
next
  case (SocketDisconnect sock)
  then show ?thesis using assms by (simp add: onDisconnect_frame)
next
  case (UpstreamEvent streamerId eventType d now)
  then show ?thesis
    using assms by (simp add: onUpstreamEvent_frame split: option.splits slot.splits)
next
  case (UpstreamConnected streamerId st)
  then show ?thesis using assms by (simp add: onConnected_def forEachSocket_frame)
next
  case (UpstreamDisconnected streamerId reason)
  then show ?thesis using assms by (simp add: onDisconnected_def forEachSocket_frame)
qed

lemma run_constructed_clean:
  "list_all (\<lambda>w. cleanOptions e (w_options w)) (constructed s) \<Longrightarrow>
   list_all (\<lambda>w. cleanOptions e (w_options w)) (constructed (run e acts s))"
  by (induction acts arbitrary: s) (simp_all add: step_def handle_constructed_clean)

text \<open>
  C9. Every wrapper the server has constructed, in any reachable state, received options
  without requestOptions and websocketOptions, and, when the server has a session id
  configured, with that session id or none: a caller's credential never reaches the
  constructor. The socket path constructs with the sanitised caller options, whose
  sessionId is the server's when one is configured; the polling path constructs with
  options the server writes itself, which carry no caller-supplied field at all.
\<close>

theorem options_sanitized:
  assumes "w \<in> set (constructed (run e acts initial_state))"
  shows "requestOptions (w_options w) = None \<and> websocketOptions (w_options w) = None
       \<and> (SESSIONID e = Some c \<and> c \<noteq> [] \<longrightarrow>
            sessionId (w_options w) = Some (JStr c) \<or> sessionId (w_options w) = None)
       \<and> (streamerIdToTikTokConnectionWrapperMap s streamerId = None
            \<and> \<not> (truthyStr (ENABLE_RATE_LIMIT e) \<and> blocked) \<longrightarrow>
            constructed (setStreamerId e sock streamerId optionsArg blocked None s)
              = constructed s @ [\<lparr>w_streamerId = streamerId,
                                  w_options = sanitizeOptions e optionsArg\<rparr>]
            \<and> requestOptions (sanitizeOptions e optionsArg) = None
            \<and> websocketOptions (sanitizeOptions e optionsArg) = None
            \<and> (SESSIONID e = Some c \<and> c \<noteq> [] \<longrightarrow>
                 sessionId (sanitizeOptions e optionsArg) = Some (JStr c)))
       \<and> (streamerIdToTikTokConnectionWrapperMap s streamerId = None
            \<and> streamerId \<noteq> [] \<and> requesterId \<noteq> [] \<longrightarrow>
            constructed (snd (getEvents
                \<lparr>q_streamerId = Some streamerId, q_requesterId = Some requesterId\<rparr> now None s))
              = constructed s @ [\<lparr>w_streamerId = streamerId, w_options = pollOptions\<rparr>]
            \<and> requestOptions pollOptions = None \<and> websocketOptions pollOptions = None
            \<and> sessionId pollOptions = None)"
proof -
  have "list_all (\<lambda>w. cleanOptions e (w_options w)) (constructed initial_state)"
    by (simp add: initial_state_def)
  then have "list_all (\<lambda>w. cleanOptions e (w_options w)) (constructed (run e acts initial_state))"
    by (rule run_constructed_clean)
  then have "cleanOptions e (w_options w)"
    using assms by (simp add: list_all_iff)
  then have reach: "requestOptions (w_options w) = None \<and> websocketOptions (w_options w) = None
       \<and> (SESSIONID e = Some c \<and> c \<noteq> [] \<longrightarrow>
            sessionId (w_options w) = Some (JStr c) \<or> sessionId (w_options w) = None)"
    by (auto simp: cleanOptions_def)
  have sock: "streamerIdToTikTokConnectionWrapperMap s streamerId = None
            \<and> \<not> (truthyStr (ENABLE_RATE_LIMIT e) \<and> blocked) \<longrightarrow>
            constructed (setStreamerId e sock streamerId optionsArg blocked None s)
              = constructed s @ [\<lparr>w_streamerId = streamerId,
                                  w_options = sanitizeOptions e optionsArg\<rparr>]"
    by (auto simp: setStreamerId_def getOrCreateTiktokConnectionWrapper_def Let_def
        split: option.splits slot.splits)
  have pull: "streamerIdToTikTokConnectionWrapperMap s streamerId = None
            \<and> streamerId \<noteq> [] \<and> requesterId \<noteq> [] \<longrightarrow>
            constructed (snd (getEvents
                \<lparr>q_streamerId = Some streamerId, q_requesterId = Some requesterId\<rparr> now None s))
              = constructed s @ [\<lparr>w_streamerId = streamerId, w_options = pollOptions\<rparr>]"
    by (simp add: getEvents_poll pollEvents_frame getOrCreate_create pollOptions_def)
  have san: "SESSIONID e = Some c \<and> c \<noteq> [] \<longrightarrow>
                 sessionId (sanitizeOptions e optionsArg) = Some (JStr c)"
    by (simp add: sanitize_clean)
  from reach sock pull san show ?thesis
    by (simp add: sanitize_clean(1,2) pollOptions_clean)
qed

theorem options_sanitized_witness:
  "\<lparr>w_streamerId = ''a'', w_options = sanitizeOptions secretEnv (Some callerOptions)\<rparr>
     \<in> set (constructed (run secretEnv
          [SetStreamerId socket0 ''a'' (Some callerOptions) False None] initial_state))
   \<and> requestOptions callerOptions = Some (JObj [(''timeout'', JNum 1)])
   \<and> sessionId callerOptions = Some (JStr ''mine'')
   \<and> requestOptions (sanitizeOptions secretEnv (Some callerOptions)) = None
   \<and> websocketOptions (sanitizeOptions secretEnv (Some callerOptions)) = None
   \<and> sessionId (sanitizeOptions secretEnv (Some callerOptions)) = Some (JStr ''secret'')
   \<and> constructed (setStreamerId secretEnv socket0 ''a'' (Some callerOptions) False None initial_state)
       = [\<lparr>w_streamerId = ''a'', w_options = sanitizeOptions secretEnv (Some callerOptions)\<rparr>]
   \<and> constructed (snd (getEvents queryAR 1000 None initial_state))
       = [\<lparr>w_streamerId = ''a'', w_options = pollOptions\<rparr>]"
proof -
  have mem: "\<lparr>w_streamerId = ''a'', w_options = sanitizeOptions secretEnv (Some callerOptions)\<rparr>
     \<in> set (constructed (run secretEnv
          [SetStreamerId socket0 ''a'' (Some callerOptions) False None] initial_state))"
    by (simp add: handler_defs secretEnv_def)
  have caller: "requestOptions callerOptions = Some (JObj [(''timeout'', JNum 1)])
      \<and> sessionId callerOptions = Some (JStr ''mine'')"
    by (simp add: callerOptions_def)
  have init: "streamerIdToTikTokConnectionWrapperMap initial_state ''a'' = None
      \<and> constructed initial_state = []"
    by (simp add: initial_state_def emptyObject_def objectPrototypeMembers_def)
  have env: "SESSIONID secretEnv = Some ''secret'' \<and> \<not> truthyStr (ENABLE_RATE_LIMIT secretEnv)"
    by (simp add: secretEnv_def)
  show ?thesis
    using mem caller init env
      options_sanitized [OF mem, of "''secret''" initial_state "''a''" False socket0
        "Some callerOptions" "''r''" 1000]
    by (simp add: queryAR_def)
qed

section \<open>One cursor for each requester\<close>

text \<open>
  C10, as the code has it, for identifiers that name no member of \<^verbatim>\<open>Object.prototype\<close>.
  The cursor map is keyed by the requester alone. When a registered requester polls
  streamer A at time tA and the poll obtains the wrapper, the cursor becomes tA. It keeps
  that value through any callbacks that are not polls of this requester, and the
  requester's next poll, for any streamer B, reads it: when that poll obtains B's wrapper
  (and tA is not 0) it returns exactly the events buffered for B whose timestamp exceeds
  tA. Through callbacks that include polls of the requester, none of them reading a clock
  value below tA, the cursor never falls below tA, so whatever a later poll for any
  streamer B returns is made of events of B stamped after tA.
\<close>

theorem shared_cursor:
  assumes "streamerA \<noteq> []" and "streamerB \<noteq> []" and "requesterId \<noteq> []"
    and "s = run env before initial_state"
    and "streamerA \<notin> set objectPrototypeMembers"
    and "requesterId \<notin> set objectPrototypeMembers"
    and "requesterIdToLastRequestTimestamp s requesterId = Some (Stored c)" and "c \<noteq> 0"
    and "\<not> acquireFails streamerA outcomeA s"
    and "s1 = snd (getEvents \<lparr>q_streamerId = Some streamerA, q_requesterId = Some requesterId\<rparr>
                    tA outcomeA s)"
    and "s2 = run e acts s1"
    and "r = fst (getEvents \<lparr>q_streamerId = Some streamerB, q_requesterId = Some requesterId\<rparr>
                    tB outcomeB s2)"
  shows "requesterIdToLastRequestTimestamp s1 requesterId = Some (Stored tA)
       \<and> (list_all (\<lambda>a. \<not> isPollBy requesterId a) acts \<longrightarrow>
            requesterIdToLastRequestTimestamp s2 requesterId = Some (Stored tA)
            \<and> (tA \<noteq> 0 \<and> \<not> acquireFails streamerB outcomeB s2
                 \<and> streamerB \<notin> set objectPrototypeMembers \<longrightarrow>
                 r = Json (map typeAndData (newEventsSince tA (eventsOf s2 streamerB))) None))
       \<and> (list_all (pollsNotBefore requesterId tA) acts \<longrightarrow>
            set (sentEvents r) \<subseteq> typeAndData ` set (newEventsSince tA (eventsOf s2 streamerB)))
       \<and> list_all (\<lambda>ev. tA < ev_timestamp ev) (newEventsSince tA (eventsOf s2 streamerB))"
proof -
  have s1: "s1 = snd (pollEvents streamerA requesterId tA outcomeA s)"
    using assms(1,3,10) by (simp add: getEvents_poll)
  have contA: "streamEvents s streamerA \<noteq> Some Inherited"
    using assms(4,5) by (simp add: reachable_container)
  have c1: "requesterIdToLastRequestTimestamp s1 requesterId = Some (Stored tA)"
    using poll_advances [OF assms(9) assms(7) assms(8) contA, of tA] s1 assms(6)
    by (simp add: ordinary_not_proto)
  have r: "r = fst (pollEvents streamerB requesterId tB outcomeB s2)"
    using assms(2,3,12) by (simp add: getEvents_poll)
  have direct: "list_all (\<lambda>a. \<not> isPollBy requesterId a) acts \<longrightarrow>
            requesterIdToLastRequestTimestamp s2 requesterId = Some (Stored tA)
            \<and> (tA \<noteq> 0 \<and> \<not> acquireFails streamerB outcomeB s2
                 \<and> streamerB \<notin> set objectPrototypeMembers \<longrightarrow>
                 r = Json (map typeAndData (newEventsSince tA (eventsOf s2 streamerB))) None)"
  proof (intro impI)
    assume others: "list_all (\<lambda>a. \<not> isPollBy requesterId a) acts"
    have c2: "requesterIdToLastRequestTimestamp s2 requesterId = Some (Stored tA)"
      using run_keeps_cursor [OF others, of e s1] c1 assms(11) by simp
    have "tA \<noteq> 0 \<and> \<not> acquireFails streamerB outcomeB s2
                 \<and> streamerB \<notin> set objectPrototypeMembers \<longrightarrow>
            r = Json (map typeAndData (newEventsSince tA (eventsOf s2 streamerB))) None"
    proof (intro impI)
      assume h: "tA \<noteq> 0 \<and> \<not> acquireFails streamerB outcomeB s2
                 \<and> streamerB \<notin> set objectPrototypeMembers"
      have "noInherited s streamerB"
        using h assms(4) by (simp add: reachable_noInherited)
      then have "noInherited s1 streamerB"
        using assms(10) by (simp add: getEvents_noInherited)
      then have "noInherited s2 streamerB"
        using assms(11) by (simp add: run_noInherited)
      then have "streamEvents s2 streamerB \<noteq> Some Inherited"
        by (simp add: noInherited_def)
      then show "r = Json (map typeAndData (newEventsSince tA (eventsOf s2 streamerB))) None"
        using poll_next(1) [of streamerB outcomeB s2 requesterId tA tB] c2 r h by simp
    qed
    then show "requesterIdToLastRequestTimestamp s2 requesterId = Some (Stored tA)
            \<and> (tA \<noteq> 0 \<and> \<not> acquireFails streamerB outcomeB s2
                 \<and> streamerB \<notin> set objectPrototypeMembers \<longrightarrow>
                 r = Json (map typeAndData (newEventsSince tA (eventsOf s2 streamerB))) None)"
      using c2 by simp
  qed
  have later: "list_all (pollsNotBefore requesterId tA) acts \<longrightarrow>
            set (sentEvents r) \<subseteq> typeAndData ` set (newEventsSince tA (eventsOf s2 streamerB))"
  proof (intro impI)
    assume h: "list_all (pollsNotBefore requesterId tA) acts"
    then obtain c' where c': "requesterIdToLastRequestTimestamp s2 requesterId = Some (Stored c')"
        "tA \<le> c'"
      using run_cursor_not_before [of s1 requesterId tA tA acts e] c1 assms(11) by auto
    show "set (sentEvents r) \<subseteq> typeAndData ` set (newEventsSince tA (eventsOf s2 streamerB))"
      using poll_events_after [OF c' assms(2) assms(3), of tB outcomeB] assms(12) by simp
  qed
  have newer: "list_all (\<lambda>ev. tA < ev_timestamp ev) (newEventsSince tA (eventsOf s2 streamerB))"
    by (simp add: newEventsSince_def list_all_iff)
  from c1 direct later newer show ?thesis by simp
qed

text \<open>
  On a run: requester r is registered, streamer b holds an event stamped 1500 that r has
  never been sent; r polls a at 2000, b receives an event at 2500, r polls b at 3000 and
  is sent the event of 2500 only.
\<close>

theorem shared_cursor_witness:
  "requesterIdToLastRequestTimestamp beforeA ''r'' = Some (Stored 1000)
   \<and> \<not> acquireFails ''a'' None beforeA
   \<and> list_all (pollsNotBefore ''r'' 2000) [UpstreamEvent ''b'' ''roomUser'' (viewers 9) 2500]
   \<and> map ev_timestamp (eventsOf (run noEnv [UpstreamEvent ''b'' ''roomUser'' (viewers 9) 2500]
         (snd (getEvents queryAR 2000 None beforeA))) ''b'') = [1500, 2500]
   \<and> fst (getEvents queryBR 3000 None
        (run noEnv [UpstreamEvent ''b'' ''roomUser'' (viewers 9) 2500]
           (snd (getEvents queryAR 2000 None beforeA))))
     = Json [(''roomUser'', RoomUserData (JNum 9))] None"
proof -
  have reg: "requesterIdToLastRequestTimestamp beforeA ''r'' = Some (Stored 1000)"
    by (simp add: beforeA_def handler_defs transformer_defs acquireFails_def noEnv_def
        queryAR_def queryBR_def viewers_def blankData_def queryBQ_def)
  have ok: "\<not> acquireFails ''a'' None beforeA"
    by (simp add: beforeA_def handler_defs transformer_defs acquireFails_def noEnv_def
        queryAR_def queryBR_def viewers_def blankData_def queryBQ_def)
  have others: "list_all (\<lambda>a. \<not> isPollBy ''r'' a) [UpstreamEvent ''b'' ''roomUser'' (viewers 9) 2500]
      \<and> list_all (pollsNotBefore ''r'' 2000) [UpstreamEvent ''b'' ''roomUser'' (viewers 9) 2500]"
    by simp
  have evs: "eventsOf (run noEnv [UpstreamEvent ''b'' ''roomUser'' (viewers 9) 2500]
         (snd (getEvents queryAR 2000 None beforeA))) ''b''
       = [\<lparr>ev_type = ''roomUser'', ev_timestamp = 1500, ev_data = RoomUserData (JNum 7)\<rparr>,
          \<lparr>ev_type = ''roomUser'', ev_timestamp = 2500, ev_data = RoomUserData (JNum 9)\<rparr>]"
    by (simp add: beforeA_def handler_defs transformer_defs acquireFails_def noEnv_def
        queryAR_def queryBR_def viewers_def blankData_def queryBQ_def)
  have okB: "\<not> acquireFails ''b'' None (run noEnv [UpstreamEvent ''b'' ''roomUser'' (viewers 9) 2500]
         (snd (getEvents queryAR 2000 None beforeA)))"
    by (simp add: beforeA_def handler_defs transformer_defs acquireFails_def noEnv_def
        queryAR_def queryBR_def viewers_def blankData_def queryBQ_def)
  have ids: "''a'' \<notin> set objectPrototypeMembers \<and> ''b'' \<notin> set objectPrototypeMembers
      \<and> ''r'' \<notin> set objectPrototypeMembers"
    by (simp add: objectPrototypeMembers_def)
  show ?thesis
    using reg ok others evs okB ids
      shared_cursor [where streamerA = "''a''" and streamerB = "''b''" and requesterId = "''r''"
        and s = beforeA and c = 1000 and outcomeA = None and tA = 2000 and e = noEnv
        and acts = "[UpstreamEvent ''b'' ''roomUser'' (viewers 9) 2500]" and tB = 3000
        and outcomeB = None and env = noEnv
        and before = "[GetEvents queryAR 1000 None, GetEvents queryBQ 1100 None,
            UpstreamEvent ''b'' ''roomUser'' (viewers 7) 1500]",
        OF _ _ _ beforeA_def _ _ reg _ ok refl refl refl]
    by (simp add: queryAR_def queryBR_def newEventsSince_def typeAndData_def)
qed

text \<open>
  C10 as stated fails when the clock goes back: r polls a at 2000, polls a again when the
  clock reads 1300, and then polls b: it is sent the event of b stamped 1500, which is not
  later than the poll of a at 2000. It also fails for the requester \<^verbatim>\<open>__proto__\<close>, whose
  poll is answered like that of a registered requester and leaves no cursor behind.
\<close>

theorem shared_cursor_counterexample:
  "requesterIdToLastRequestTimestamp beforeA ''r'' = Some (Stored 1000)
   \<and> map ev_timestamp (eventsOf beforeA ''b'') = [1500]
   \<and> fst (getEvents queryAR 2000 None beforeA) = Json [] None
   \<and> requesterIdToLastRequestTimestamp (snd (getEvents queryAR 2000 None beforeA)) ''r''
       = Some (Stored 2000)
   \<and> fst (getEvents queryBR 1400 None
        (run noEnv [GetEvents queryAR 1300 None] (snd (getEvents queryAR 2000 None beforeA))))
       = Json [(''roomUser'', RoomUserData (JNum 7))] None
   \<and> fst (getEvents queryAP 2000 None beforeA) = Json [] None
   \<and> requesterIdToLastRequestTimestamp (snd (getEvents queryAP 2000 None beforeA)) ''__proto__''
       = Some Inherited"
  by (simp add: beforeA_def handler_defs transformer_defs noEnv_def queryAR_def queryBR_def
      viewers_def blankData_def queryBQ_def queryAP_def)

end
